theory Spec2Isabelle
  imports Main "HOL-Library.Sublist"
begin

section \<open>The database file\<close>

text \<open>
  The repository's \<^verbatim>\<open>db_project/logic.py\<close> holds two managers over one SQLite file:
  \<^verbatim>\<open>DatabaseManager\<close> (tables users, status, projects, created with
  \<^verbatim>\<open>CREATE TABLE IF NOT EXISTS\<close>) and \<^verbatim>\<open>DB_Manager\<close> (tables projects, skills,
  project_skills, status, created with a plain \<^verbatim>\<open>CREATE TABLE\<close>, and the CRUD
  methods). The engine is not part of the repository; what its statements do is written
  out here for exactly the statements the code issues.

  Conventions of the embedding.
  \<^item> A Python exception is a value of \<open>error\<close>; every method returns its outcome
    together with the database it leaves behind.
  \<^item> A nullable column is an \<open>option\<close>; so is a Python argument, \<open>None\<close> being
    Python's \<^verbatim>\<open>None\<close>. The arguments are integers, strings and \<^verbatim>\<open>None\<close>. An
    integer argument outside the 64-bit range makes the \<^verbatim>\<open>sqlite3\<close> binding raise
    \<open>OverflowError\<close> when it binds the statement's parameters, after the statement
    has been compiled and before it runs.
  \<^item> A column of text affinity holds text or \<^verbatim>\<open>NULL\<close>. \<^verbatim>\<open>projects.status_id\<close>, the
    one integer column a caller's value of any kind can be written to, holds an
    \<open>sql_value\<close>.
  \<^item> A table is the list of its rows in rowid order, the order in which a scan of one
    table returns them. Rowids are unbounded integers here; the engine's random choice
    of a rowid once the largest one is \<open>2^63 - 1\<close> is not modelled.
\<close>

datatype error =
    OperationalError    \<comment> \<open>\<^verbatim>\<open>sqlite3.OperationalError\<close>: table exists already, no such table or column\<close>
  | IntegrityError      \<comment> \<open>\<^verbatim>\<open>sqlite3.IntegrityError\<close>: a NOT NULL constraint failed\<close>
  | ValueError string   \<comment> \<open>raised by the methods themselves, with its message\<close>
  | TypeError           \<comment> \<open>\<^verbatim>\<open>str.join\<close> on a sequence holding \<^verbatim>\<open>None\<close>\<close>
  | OverflowError       \<comment> \<open>binding a Python \<^verbatim>\<open>int\<close> that does not fit 64 bits\<close>

subsection \<open>Table definitions\<close>

datatype col_type = INTEGER | TEXT

record column_def =
  col_name :: string
  col_type :: col_type
  col_primary_key :: bool
  col_not_null :: bool
  col_unique :: bool

datatype on_delete = NoAction | Cascade | SetNull

record foreign_key =
  fk_column :: string
  fk_ref_table :: string
  fk_ref_column :: string
  fk_on_delete :: on_delete

record table_def =
  table_name :: string
  table_columns :: "column_def list"
  table_foreign_keys :: "foreign_key list"

definition column :: "string \<Rightarrow> col_type \<Rightarrow> column_def" where
  "column n t = \<lparr>col_name = n, col_type = t, col_primary_key = False,
                 col_not_null = False, col_unique = False\<rparr>"

definition primary_key :: "string \<Rightarrow> column_def" where
  "primary_key n = (column n INTEGER)\<lparr>col_primary_key := True\<rparr>"

subsection \<open>Rows\<close>

text \<open>
  The columns keep their names, except that a referencing column is prefixed where the
  name is taken by the key it refers to: \<open>fk_status_id\<close> is \<^verbatim>\<open>projects.status_id\<close>,
  \<open>fk_project_id\<close> and \<open>fk_skill_id\<close> are the two columns of \<^verbatim>\<open>project_skills\<close>.
\<close>

text \<open>What a cell can hold: \<^verbatim>\<open>NULL\<close>, an integer, a real (the double \<open>m * 2^e\<close> as
  \<open>SqlReal m e\<close>) or text.\<close>

datatype sql_value = SqlNull | SqlInt int | SqlReal int int | SqlText string

record project_row =
  project_id :: int
  user_id :: "int option"
  project_name :: string
  description :: "string option"
  url :: "string option"
  fk_status_id :: sql_value

record skill_row =
  skill_id :: int
  skill_name :: "string option"

record project_skill_row =
  fk_project_id :: "int option"
  fk_skill_id :: "int option"

record status_row =
  status_id :: int
  status_name :: "string option"

record database =
  catalog :: "table_def list"                   \<comment> \<open>\<^verbatim>\<open>sqlite_master\<close>, in creation order\<close>
  tbl_projects :: "project_row list"
  tbl_skills :: "skill_row list"
  tbl_project_skills :: "project_skill_row list"
  tbl_status :: "status_row list"

definition empty_database :: database where
  "empty_database = \<lparr>catalog = [], tbl_projects = [], tbl_skills = [],
                      tbl_project_skills = [], tbl_status = []\<rparr>"

definition find_table :: "database \<Rightarrow> string \<Rightarrow> table_def option" where
  "find_table db t = find (\<lambda>d. table_name d = t) (catalog db)"

text \<open>A statement naming columns \<open>cs\<close> of table \<open>t\<close> compiles iff the table is there
  and has them; otherwise the engine raises \<open>OperationalError\<close>.\<close>

definition has_table :: "database \<Rightarrow> string \<Rightarrow> string list \<Rightarrow> bool" where
  "has_table db t cs =
     (case find_table db t of
        None \<Rightarrow> False
      | Some d \<Rightarrow> list_all (\<lambda>c. c \<in> set (map col_name (table_columns d))) cs)"

section \<open>Connections and DDL\<close>

text \<open>
  \<^verbatim>\<open>sqlite3.connect\<close> opens a connection on which foreign-key enforcement is off.
  DDL runs outside any transaction, so a table created before a later statement fails
  stays created.
\<close>

record connection =
  conn_foreign_keys :: bool
  conn_db :: database

definition connect :: "database \<Rightarrow> connection" where
  "connect db = \<lparr>conn_foreign_keys = False, conn_db = db\<rparr>"

datatype statement =
    PragmaForeignKeysOn                \<comment> \<open>\<^verbatim>\<open>PRAGMA foreign_keys = ON;\<close>\<close>
  | CreateTable bool table_def         \<comment> \<open>the flag: \<^verbatim>\<open>IF NOT EXISTS\<close>\<close>
  | Commit

text \<open>A table that has just been created has no rows.\<close>

definition clear_rows :: "string \<Rightarrow> database \<Rightarrow> database" where
  "clear_rows t db =
     (if t = ''projects'' then db\<lparr>tbl_projects := []\<rparr>
      else if t = ''skills'' then db\<lparr>tbl_skills := []\<rparr>
      else if t = ''project_skills'' then db\<lparr>tbl_project_skills := []\<rparr>
      else if t = ''status'' then db\<lparr>tbl_status := []\<rparr>
      else db)"

fun execute_statement :: "connection \<Rightarrow> statement \<Rightarrow> error + connection" where
  "execute_statement c PragmaForeignKeysOn = Inr (c\<lparr>conn_foreign_keys := True\<rparr>)"
| "execute_statement c (CreateTable if_not_exists d) =
     (case find_table (conn_db c) (table_name d) of
        Some _ \<Rightarrow> if if_not_exists then Inr c else Inl OperationalError
      | None \<Rightarrow>
          Inr (c\<lparr>conn_db := clear_rows (table_name d)
                               ((conn_db c)\<lparr>catalog := catalog (conn_db c) @ [d]\<rparr>)\<rparr>))"
| "execute_statement c Commit = Inr c"

fun run_script :: "connection \<Rightarrow> statement list \<Rightarrow> (error + unit) \<times> connection" where
  "run_script c [] = (Inr (), c)"
| "run_script c (s # ss) =
     (case execute_statement c s of
        Inl e \<Rightarrow> (Inl e, c)
      | Inr c' \<Rightarrow> run_script c' ss)"

text \<open>Whether foreign-key enforcement is on whenever a statement list, run on a
  connection whose enforcement flag is \<open>fk\<close>, reaches a \<^verbatim>\<open>CREATE TABLE\<close>.\<close>

fun foreign_keys_on_at_ddl :: "bool \<Rightarrow> statement list \<Rightarrow> bool" where
  "foreign_keys_on_at_ddl fk [] = True"
| "foreign_keys_on_at_ddl fk (PragmaForeignKeysOn # ss) = foreign_keys_on_at_ddl True ss"
| "foreign_keys_on_at_ddl fk (CreateTable _ _ # ss) = (fk \<and> foreign_keys_on_at_ddl fk ss)"
| "foreign_keys_on_at_ddl fk (Commit # ss) = foreign_keys_on_at_ddl fk ss"

subsection \<open>\<^verbatim>\<open>DatabaseManager.create_tables\<close>\<close>

definition sql_users :: table_def where
  "sql_users = \<lparr>table_name = ''users'',
     table_columns = [primary_key ''user_id'',
                      (column ''username'' TEXT)\<lparr>col_not_null := True, col_unique := True\<rparr>,
                      column ''email'' TEXT,
                      column ''joined_at'' TEXT],
     table_foreign_keys = []\<rparr>"

definition sql_status :: table_def where
  "sql_status = \<lparr>table_name = ''status'',
     table_columns = [primary_key ''status_id'',
                      (column ''name'' TEXT)\<lparr>col_not_null := True, col_unique := True\<rparr>],
     table_foreign_keys = []\<rparr>"

definition sql_projects :: table_def where
  "sql_projects = \<lparr>table_name = ''projects'',
     table_columns = [primary_key ''project_id'',
                      column ''user_id'' INTEGER,
                      (column ''project_name'' TEXT)\<lparr>col_not_null := True\<rparr>,
                      column ''description'' TEXT,
                      column ''url'' TEXT,
                      column ''status_id'' INTEGER],
     table_foreign_keys =
       [\<lparr>fk_column = ''user_id'', fk_ref_table = ''users'', fk_ref_column = ''user_id'',
         fk_on_delete = Cascade\<rparr>,
        \<lparr>fk_column = ''status_id'', fk_ref_table = ''status'', fk_ref_column = ''status_id'',
         fk_on_delete = SetNull\<rparr>]\<rparr>"

definition DatabaseManager_create_tables_script :: "statement list" where
  "DatabaseManager_create_tables_script =
     [PragmaForeignKeysOn,
      CreateTable True sql_users,
      CreateTable True sql_status,
      CreateTable True sql_projects]"

definition DatabaseManager_create_tables :: "database \<Rightarrow> (error + unit) \<times> database" where
  "DatabaseManager_create_tables db =
     (case run_script (connect db) DatabaseManager_create_tables_script of
        (r, c) \<Rightarrow> (r, conn_db c))"

subsection \<open>\<^verbatim>\<open>DB_Manager.create_tables\<close>\<close>

definition projects_ddl :: table_def where
  "projects_ddl = \<lparr>table_name = ''projects'',
     table_columns = [primary_key ''project_id'',
                      column ''user_id'' INTEGER,
                      (column ''project_name'' TEXT)\<lparr>col_not_null := True\<rparr>,
                      column ''description'' TEXT,
                      column ''url'' TEXT,
                      column ''status_id'' INTEGER],
     table_foreign_keys =
       [\<lparr>fk_column = ''status_id'', fk_ref_table = ''status'', fk_ref_column = ''status_id'',
         fk_on_delete = NoAction\<rparr>]\<rparr>"

definition skills_ddl :: table_def where
  "skills_ddl = \<lparr>table_name = ''skills'',
     table_columns = [primary_key ''skill_id'', column ''skill_name'' TEXT],
     table_foreign_keys = []\<rparr>"

definition project_skills_ddl :: table_def where
  "project_skills_ddl = \<lparr>table_name = ''project_skills'',
     table_columns = [column ''project_id'' INTEGER, column ''skill_id'' INTEGER],
     table_foreign_keys =
       [\<lparr>fk_column = ''project_id'', fk_ref_table = ''projects'',
         fk_ref_column = ''project_id'', fk_on_delete = NoAction\<rparr>,
        \<lparr>fk_column = ''skill_id'', fk_ref_table = ''skills'', fk_ref_column = ''skill_id'',
         fk_on_delete = NoAction\<rparr>]\<rparr>"

definition status_ddl :: table_def where
  "status_ddl = \<lparr>table_name = ''status'',
     table_columns = [primary_key ''status_id'', column ''status_name'' TEXT],
     table_foreign_keys = []\<rparr>"

text \<open>The file defines \<^verbatim>\<open>DB_Manager\<close> twice; the two \<^verbatim>\<open>create_tables\<close> issue the same
  statements.\<close>

definition DB_Manager_create_tables_script :: "statement list" where
  "DB_Manager_create_tables_script =
     [CreateTable False projects_ddl,
      CreateTable False skills_ddl,
      CreateTable False project_skills_ddl,
      CreateTable False status_ddl,
      Commit]"

definition DB_Manager_create_tables :: "database \<Rightarrow> (error + unit) \<times> database" where
  "DB_Manager_create_tables db =
     (case run_script (connect db) DB_Manager_create_tables_script of
        (r, c) \<Rightarrow> (r, conn_db c))"

section \<open>\<^verbatim>\<open>DB_Manager\<close>: the data methods\<close>

text \<open>
  \<^verbatim>\<open>__executemany\<close> and \<^verbatim>\<open>__select_data\<close> open a connection of their own, on which
  foreign-key enforcement stays off, run one statement and commit; an exception inside
  rolls the statement's changes back. So each method below either returns with the new
  database or raises with the database as its last committed statement left it.
\<close>

text \<open>The integers the binding accepts, and the arguments it accepts.\<close>

definition in_range64 :: "int \<Rightarrow> bool" where
  "in_range64 i = (- (2 ^ 63) \<le> i \<and> i < 2 ^ 63)"

definition bindable :: "int option \<Rightarrow> bool" where
  "bindable a = (case a of None \<Rightarrow> True | Some i \<Rightarrow> in_range64 i)"

definition sql_int :: "int option \<Rightarrow> sql_value" where
  "sql_int a = (case a of None \<Rightarrow> SqlNull | Some i \<Rightarrow> SqlInt i)"

text \<open>SQL equality: a comparison with \<^verbatim>\<open>NULL\<close> is never true.\<close>

definition sql_eq :: "'a option \<Rightarrow> 'a option \<Rightarrow> bool" where
  "sql_eq a b = (case (a, b) of (Some x, Some y) \<Rightarrow> x = y | _ \<Rightarrow> False)"

text \<open>The rowid an \<^verbatim>\<open>INTEGER PRIMARY KEY\<close> column gets when the insert gives none:
  one more than the largest in use, and 1 in an empty table.\<close>

definition next_rowid :: "int list \<Rightarrow> int" where
  "next_rowid ids = (case ids of [] \<Rightarrow> 1 | i # js \<Rightarrow> fold max js i + 1)"

definition skills :: "string list" where
  "skills = [''Python'', ''SQL'', ''API'', ''Discord'']"

definition statuses :: "string list" where
  "statuses = [''Pembuatan Prototipe'', ''Dalam Pengembangan'', ''Selesai, siap digunakan'',
               ''Diperbarui'', ''Selesai, tapi tidak sedang dilanjutkan'']"

text \<open>\<^verbatim>\<open>INSERT OR IGNORE INTO skills (skill_name) values(?)\<close>: the table declares no
  constraint on \<^verbatim>\<open>skill_name\<close> and the key is assigned, so no row is ever ignored.
  The same holds for \<^verbatim>\<open>status\<close>.\<close>

definition insert_skills_row :: "string option \<Rightarrow> database \<Rightarrow> database" where
  "insert_skills_row n db =
     db\<lparr>tbl_skills := tbl_skills db @
          [\<lparr>skill_id = next_rowid (map skill_id (tbl_skills db)), skill_name = n\<rparr>]\<rparr>"

definition insert_status_row :: "string option \<Rightarrow> database \<Rightarrow> database" where
  "insert_status_row n db =
     db\<lparr>tbl_status := tbl_status db @
          [\<lparr>status_id = next_rowid (map status_id (tbl_status db)), status_name = n\<rparr>]\<rparr>"

definition default_insert :: "database \<Rightarrow> (error + unit) \<times> database" where
  "default_insert db =
     (if \<not> has_table db ''skills'' [''skill_name''] then (Inl OperationalError, db)
      else
        let db1 = fold (\<lambda>n. insert_skills_row (Some n)) skills db in
        if \<not> has_table db1 ''status'' [''status_name''] then (Inl OperationalError, db1)
        else (Inr (), fold (\<lambda>n. insert_status_row (Some n)) statuses db1))"

text \<open>\<^verbatim>\<open>insert_project\<close>: one transaction for all the tuples
  \<open>(user_id, project_name, description, url, status_id)\<close>, each bound and then run. An
  integer that does not fit raises when its tuple is bound; a \<^verbatim>\<open>NULL\<close> project name
  violates \<^verbatim>\<open>NOT NULL\<close> when its tuple is run. Either undoes the rows inserted
  before it.\<close>

type_synonym project_data = "int option \<times> string option \<times> string option \<times> string option \<times> int option"

fun insert_project_rows :: "project_row list \<Rightarrow> project_data list \<Rightarrow> error + project_row list" where
  "insert_project_rows rows [] = Inr rows"
| "insert_project_rows rows ((u, n, d, l, s) # data) =
     (if bindable u \<and> bindable s then
        (case n of
           None \<Rightarrow> Inl IntegrityError
         | Some name \<Rightarrow>
             insert_project_rows
               (rows @ [\<lparr>project_id = next_rowid (map project_id rows), user_id = u,
                          project_name = name, description = d, url = l,
                          fk_status_id = sql_int s\<rparr>])
               data)
      else Inl OverflowError)"

definition insert_project :: "database \<Rightarrow> project_data list \<Rightarrow> (error + unit) \<times> database" where
  "insert_project db data =
     (if \<not> has_table db ''projects''
             [''user_id'', ''project_name'', ''description'', ''url'', ''status_id'']
      then (Inl OperationalError, db)
      else case insert_project_rows (tbl_projects db) data of
             Inl e \<Rightarrow> (Inl e, db)
           | Inr rows \<Rightarrow> (Inr (), db\<lparr>tbl_projects := rows\<rparr>))"

text \<open>\<^verbatim>\<open>SELECT project_id FROM projects WHERE project_name = ? AND user_id = ?\<close>\<close>

definition select_project_id :: "database \<Rightarrow> string option \<Rightarrow> int option \<Rightarrow> int list" where
  "select_project_id db name uid =
     map project_id
       (filter (\<lambda>p. sql_eq (Some (project_name p)) name \<and> sql_eq (user_id p) uid)
          (tbl_projects db))"

text \<open>\<^verbatim>\<open>SELECT skill_id FROM skills WHERE skill_name = ?\<close>\<close>

definition select_skill_id :: "database \<Rightarrow> string option \<Rightarrow> int list" where
  "select_skill_id db skill =
     map skill_id (filter (\<lambda>s. sql_eq (skill_name s) skill) (tbl_skills db))"

text \<open>\<^verbatim>\<open>insert_skill\<close>: \<^verbatim>\<open>project_skills\<close> declares no key and no uniqueness, so its
  \<^verbatim>\<open>INSERT OR IGNORE\<close> has nothing to conflict with and always adds the row.\<close>

definition insert_skill ::
  "database \<Rightarrow> int option \<Rightarrow> string option \<Rightarrow> string option \<Rightarrow> (error + unit) \<times> database" where
  "insert_skill db uid name skill =
     (if \<not> has_table db ''projects'' [''project_id'', ''project_name'', ''user_id'']
      then (Inl OperationalError, db)
      else if bindable uid then
        (case select_project_id db name uid of
           [] \<Rightarrow> (Inl (ValueError ''Project not found''), db)
         | pid # _ \<Rightarrow>
             if \<not> has_table db ''skills'' [''skill_id'', ''skill_name'']
             then (Inl OperationalError, db)
             else (case select_skill_id db skill of
               [] \<Rightarrow> (Inl (ValueError ''Skill not found''), db)
             | sid # _ \<Rightarrow>
                 if \<not> has_table db ''project_skills'' [''project_id'', ''skill_id'']
                 then (Inl OperationalError, db)
                 else (Inr (), db\<lparr>tbl_project_skills := tbl_project_skills db @
                                     [\<lparr>fk_project_id = Some pid, fk_skill_id = Some sid\<rparr>]\<rparr>)))
      else (Inl OverflowError, db))"

definition get_statuses :: "database \<Rightarrow> (error + (int \<times> string option) list) \<times> database" where
  "get_statuses db =
     (if \<not> has_table db ''status'' [''status_id'', ''status_name'']
      then (Inl OperationalError, db)
      else (Inr (map (\<lambda>s. (status_id s, status_name s)) (tbl_status db)), db))"

text \<open>\<^verbatim>\<open>get_status_id\<close> returns \<^verbatim>\<open>None\<close>, here \<open>Inr None\<close>, when no row matches.\<close>

definition get_status_id :: "database \<Rightarrow> string option \<Rightarrow> (error + int option) \<times> database" where
  "get_status_id db name =
     (if \<not> has_table db ''status'' [''status_id'', ''status_name'']
      then (Inl OperationalError, db)
      else case map status_id (filter (\<lambda>s. sql_eq (status_name s) name) (tbl_status db)) of
             [] \<Rightarrow> (Inr None, db)
           | i # _ \<Rightarrow> (Inr (Some i), db))"

definition get_project_id ::
  "database \<Rightarrow> string option \<Rightarrow> int option \<Rightarrow> (error + int) \<times> database" where
  "get_project_id db name uid =
     (if \<not> has_table db ''projects'' [''project_id'', ''project_name'', ''user_id'']
      then (Inl OperationalError, db)
      else if bindable uid then
        (case select_project_id db name uid of
           [] \<Rightarrow> (Inl (ValueError ''Project not found''), db)
         | pid # _ \<Rightarrow> (Inr pid, db))
      else (Inl OverflowError, db))"

text \<open>\<^verbatim>\<open>SELECT * FROM skills\<close>\<close>

definition get_skills :: "database \<Rightarrow> (error + (int \<times> string option) list) \<times> database" where
  "get_skills db =
     (if \<not> has_table db ''skills'' [] then (Inl OperationalError, db)
      else (Inr (map (\<lambda>s. (skill_id s, skill_name s)) (tbl_skills db)), db))"

text \<open>
  The three-table join of \<^verbatim>\<open>get_project_skills\<close>, in the order the engine runs it:
  a scan of \<^verbatim>\<open>project_skills\<close>, with the project and the skill of each row looked up
  by their keys. Nothing below depends on the order of the result.
\<close>

definition select_project_skills :: "database \<Rightarrow> string option \<Rightarrow> string option list" where
  "select_project_skills db name =
     concat (map (\<lambda>ps.
       concat (map (\<lambda>p.
         map skill_name
           (filter (\<lambda>s. sql_eq (Some (skill_id s)) (fk_skill_id ps)) (tbl_skills db)))
         (filter (\<lambda>p. sql_eq (Some (project_id p)) (fk_project_id ps)
                       \<and> sql_eq (Some (project_name p)) name)
            (tbl_projects db))))
       (tbl_project_skills db))"

text \<open>\<^verbatim>\<open>', '.join(xs)\<close>\<close>

fun join :: "string list \<Rightarrow> string" where
  "join [] = []"
| "join [x] = x"
| "join (x # y # ys) = x @ '', '' @ join (y # ys)"

text \<open>The list \<^verbatim>\<open>[x[0] for x in res]\<close> as strings, or nothing when one of them is
  \<^verbatim>\<open>None\<close>, on which \<^verbatim>\<open>join\<close> raises.\<close>

fun all_strings :: "string option list \<Rightarrow> string list option" where
  "all_strings [] = Some []"
| "all_strings (None # xs) = None"
| "all_strings (Some x # xs) = map_option ((#) x) (all_strings xs)"

definition get_project_skills :: "database \<Rightarrow> string option \<Rightarrow> (error + string) \<times> database" where
  "get_project_skills db name =
     (if \<not> (has_table db ''projects'' [''project_id'', ''project_name'']
            \<and> has_table db ''project_skills'' [''project_id'', ''skill_id'']
            \<and> has_table db ''skills'' [''skill_id'', ''skill_name''])
      then (Inl OperationalError, db)
      else case all_strings (select_project_skills db name) of
             None \<Rightarrow> (Inl TypeError, db)
           | Some names \<Rightarrow> (Inr (join names), db))"

text \<open>
  \<^verbatim>\<open>update_projects\<close>. The first component of \<^verbatim>\<open>data\<close> is the new value, a Python
  \<^verbatim>\<open>None\<close>, \<^verbatim>\<open>int\<close> or \<^verbatim>\<open>str\<close>. The method checks no type: the engine stores the
  value after the coercion of the column's affinity.
\<close>

datatype py_value = PyNone | PyInt int | PyStr string

definition bindable_value :: "py_value \<Rightarrow> bool" where
  "bindable_value v = (case v of PyInt i \<Rightarrow> in_range64 i | _ \<Rightarrow> True)"

text \<open>The decimal text of an integer.\<close>

fun digits :: "nat \<Rightarrow> string" where
  "digits n = (if n < 10 then [''0123456789'' ! n]
               else digits (n div 10) @ [''0123456789'' ! (n mod 10)])"

definition decimal :: "int \<Rightarrow> string" where
  "decimal i = (if i < 0 then CHR ''-'' # digits (nat (- i)) else digits (nat i))"

text \<open>Text affinity (\<^verbatim>\<open>project_name\<close>, \<^verbatim>\<open>description\<close>, \<^verbatim>\<open>url\<close>): an integer is
  stored as its decimal text.\<close>

definition text_affinity :: "py_value \<Rightarrow> string option" where
  "text_affinity v =
     (case v of PyNone \<Rightarrow> None | PyInt i \<Rightarrow> Some (decimal i) | PyStr s \<Rightarrow> Some s)"

text \<open>
  Integer affinity (\<^verbatim>\<open>status_id\<close>): a text that is a numeric literal is stored as the
  integer or real it denotes, any other text as it is. Which texts are numeric literals,
  and what they denote, is the engine's business and no part of the repository: the
  conversion is the parameter \<open>numeric\<close>, from a text to the cell stored for it.
\<close>

definition integer_affinity :: "(string \<Rightarrow> sql_value) \<Rightarrow> py_value \<Rightarrow> sql_value" where
  "integer_affinity numeric v =
     (case v of PyNone \<Rightarrow> SqlNull | PyInt i \<Rightarrow> SqlInt i | PyStr s \<Rightarrow> numeric s)"

definition allowed :: "string set" where
  "allowed = {''project_name'', ''description'', ''url'', ''status_id''}"

text \<open>\<^verbatim>\<open>SET {param} = ?\<close> on one row. \<^verbatim>\<open>project_name\<close> is \<^verbatim>\<open>NOT NULL\<close>.\<close>

definition set_column ::
  "(string \<Rightarrow> sql_value) \<Rightarrow> string \<Rightarrow> py_value \<Rightarrow> project_row \<Rightarrow> error + project_row" where
  "set_column numeric param v p =
     (if param = ''project_name'' then
        (case text_affinity v of
           None \<Rightarrow> Inl IntegrityError
         | Some s \<Rightarrow> Inr (p\<lparr>project_name := s\<rparr>))
      else if param = ''description'' then Inr (p\<lparr>description := text_affinity v\<rparr>)
      else if param = ''url'' then Inr (p\<lparr>url := text_affinity v\<rparr>)
      else Inr (p\<lparr>fk_status_id := integer_affinity numeric v\<rparr>))"

text \<open>The cell a successful \<^verbatim>\<open>SET {param} = ?\<close> leaves in the column.\<close>

definition stored_value :: "(string \<Rightarrow> sql_value) \<Rightarrow> string \<Rightarrow> py_value \<Rightarrow> sql_value" where
  "stored_value numeric param v =
     (if param = ''status_id'' then integer_affinity numeric v
      else case text_affinity v of None \<Rightarrow> SqlNull | Some s \<Rightarrow> SqlText s)"

text \<open>\<^verbatim>\<open>WHERE user_id = ? AND project_id = ?\<close>\<close>

definition matches :: "int option \<Rightarrow> int option \<Rightarrow> project_row \<Rightarrow> bool" where
  "matches uid pid p = (sql_eq (user_id p) uid \<and> sql_eq (Some (project_id p)) pid)"

text \<open>The \<^verbatim>\<open>UPDATE\<close> over the rows of the table; the first failing row aborts it.\<close>

fun update_rows ::
  "(string \<Rightarrow> sql_value) \<Rightarrow> string \<Rightarrow> py_value \<Rightarrow> int option \<Rightarrow> int option
     \<Rightarrow> project_row list \<Rightarrow> error + project_row list" where
  "update_rows numeric param v uid pid [] = Inr []"
| "update_rows numeric param v uid pid (p # ps) =
     (if matches uid pid p then
        (case set_column numeric param v p of
           Inl e \<Rightarrow> Inl e
         | Inr p' \<Rightarrow> map_sum id ((#) p') (update_rows numeric param v uid pid ps))
      else map_sum id ((#) p) (update_rows numeric param v uid pid ps))"

definition update_projects ::
  "(string \<Rightarrow> sql_value) \<Rightarrow> database \<Rightarrow> string \<Rightarrow> py_value \<times> int option \<times> int option
     \<Rightarrow> (error + unit) \<times> database" where
  "update_projects numeric db param data =
     (if param \<notin> allowed then (Inl (ValueError ''Invalid column''), db)
      else if \<not> has_table db ''projects'' [param, ''user_id'', ''project_id'']
      then (Inl OperationalError, db)
      else case data of (v, uid, pid) \<Rightarrow>
        if bindable_value v \<and> bindable uid \<and> bindable pid then
          (case update_rows numeric param v uid pid (tbl_projects db) of
             Inl e \<Rightarrow> (Inl e, db)
           | Inr rows \<Rightarrow> (Inr (), db\<lparr>tbl_projects := rows\<rparr>))
        else (Inl OverflowError, db))"

text \<open>\<^verbatim>\<open>delete_project\<close>: with enforcement off, rows of \<^verbatim>\<open>project_skills\<close> that
  refer to the project stay.\<close>

definition delete_project :: "database \<Rightarrow> int option \<Rightarrow> int option \<Rightarrow> (error + unit) \<times> database" where
  "delete_project db uid pid =
     (if \<not> has_table db ''projects'' [''user_id'', ''project_id'']
      then (Inl OperationalError, db)
      else if bindable uid \<and> bindable pid
      then (Inr (), db\<lparr>tbl_projects := filter (\<lambda>p. \<not> matches uid pid p) (tbl_projects db)\<rparr>)
      else (Inl OverflowError, db))"

definition delete_skill :: "database \<Rightarrow> int option \<Rightarrow> int option \<Rightarrow> (error + unit) \<times> database" where
  "delete_skill db pid sid =
     (if \<not> has_table db ''project_skills'' [''project_id'', ''skill_id'']
      then (Inl OperationalError, db)
      else if bindable pid \<and> bindable sid
      then (Inr (), db\<lparr>tbl_project_skills :=
              filter (\<lambda>ps. \<not> (sql_eq (fk_project_id ps) pid \<and> sql_eq (fk_skill_id ps) sid))
                (tbl_project_skills db)\<rparr>)
      else (Inl OverflowError, db))"

text \<open>The value of a column of a project row, by the column's name.\<close>

definition project_column :: "string \<Rightarrow> project_row \<Rightarrow> sql_value option" where
  "project_column c p =
     (if c = ''project_id'' then Some (SqlInt (project_id p))
      else if c = ''user_id'' then Some (sql_int (user_id p))
      else if c = ''project_name'' then Some (SqlText (project_name p))
      else if c = ''description'' then
        Some (case description p of None \<Rightarrow> SqlNull | Some s \<Rightarrow> SqlText s)
      else if c = ''url'' then Some (case url p of None \<Rightarrow> SqlNull | Some s \<Rightarrow> SqlText s)
      else if c = ''status_id'' then Some (fk_status_id p)
      else None)"

text \<open>A conversion that takes no text for a numeric literal; it stands for the engine's
  where no text is written to \<^verbatim>\<open>status_id\<close>.\<close>

definition keep_text :: "string \<Rightarrow> sql_value" where
  "keep_text s = SqlText s"

section \<open>Databases the statements below are evaluated on\<close>

text \<open>A new file after \<^verbatim>\<open>DB_Manager.create_tables\<close>; the same after \<^verbatim>\<open>default_insert\<close>;
  then with two projects of two users; with two projects of one name and user and a
  project without a user; and with one skill given twice to one project.\<close>

definition fresh_database :: database where
  "fresh_database = snd (DB_Manager_create_tables empty_database)"

definition seeded_database :: database where
  "seeded_database = snd (default_insert fresh_database)"

definition example_database :: database where
  "example_database =
     snd (insert_project seeded_database
            [(Some 7, Some ''bot'', Some ''a Discord bot'', None, Some 1),
             (Some 8, Some ''site'', None, None, None)])"

definition same_name_database :: database where
  "same_name_database =
     snd (insert_project seeded_database
            [(Some 7, Some ''bot'', None, None, None),
             (Some 7, Some ''bot'', None, None, None),
             (None, Some ''solo'', None, None, None)])"

definition skilled_database :: database where
  "skilled_database = snd (insert_skill example_database (Some 7) (Some ''bot'') (Some ''Python''))"

section \<open>Properties\<close>

lemma sql_eq_simps [simp]:
  "sql_eq None b = False" "sql_eq a None = False"
  "sql_eq a (Some y) = (a = Some y)" "sql_eq (Some x) b = (b = Some x)"
  by (auto simp: sql_eq_def split: option.splits)

subsection \<open>Creating the tables\<close>

lemma find_table_clear_rows [simp]: "find_table (clear_rows t db) u = find_table db u"
  by (simp add: find_table_def clear_rows_def)

lemma find_snoc:
  "find P (xs @ [d]) =
     (case find P xs of Some e \<Rightarrow> Some e | None \<Rightarrow> if P d then Some d else None)"
  by (induction xs) auto

lemma find_table_append:
  "find_table (db\<lparr>catalog := catalog db @ [d]\<rparr>) t =
     (case find_table db t of
        Some e \<Rightarrow> Some e
      | None \<Rightarrow> if table_name d = t then Some d else None)"
  by (simp add: find_table_def find_snoc)

lemma execute_statement_created:
  "execute_statement c (CreateTable b d) = Inr c' \<Longrightarrow> find_table (conn_db c') (table_name d) \<noteq> None"
  by (auto simp: find_table_append split: option.splits if_splits)

lemma execute_statement_keeps:
  assumes "execute_statement c s = Inr c'" and "find_table (conn_db c) t \<noteq> None"
  shows "find_table (conn_db c') t \<noteq> None"
proof (cases s)
  case PragmaForeignKeysOn
  with assms show ?thesis by auto
next
  case (CreateTable b d)
  with assms show ?thesis
    by (auto simp: find_table_append split: option.splits if_splits)
next
  case Commit
  with assms show ?thesis by auto
qed

lemma run_script_keeps:
  "find_table (conn_db c) t \<noteq> None \<Longrightarrow> find_table (conn_db (snd (run_script c ss))) t \<noteq> None"
proof (induction ss arbitrary: c)
  case Nil
  then show ?case by simp
next
  case (Cons s ss)
  show ?case
  proof (cases "execute_statement c s")
    case (Inl e)
    with Cons.prems show ?thesis by simp
  next
    case (Inr c')
    from execute_statement_keeps [OF Inr Cons.prems] have "find_table (conn_db c') t \<noteq> None" .
    from Cons.IH [OF this] Inr show ?thesis by simp
  qed
qed

lemma run_script_created:
  "fst (run_script c ss) = Inr () \<Longrightarrow> CreateTable b d \<in> set ss \<Longrightarrow>
   find_table (conn_db (snd (run_script c ss))) (table_name d) \<noteq> None"
proof (induction ss arbitrary: c)
  case Nil
  then show ?case by simp
next
  case (Cons s ss)
  show ?case
  proof (cases "execute_statement c s")
    case (Inl e)
    with Cons.prems show ?thesis by simp
  next
    case (Inr c')
    with Cons.prems(1) have ok: "fst (run_script c' ss) = Inr ()" by simp
    show ?thesis
    proof (cases "s = CreateTable b d")
      case True
      with Inr have "execute_statement c (CreateTable b d) = Inr c'" by simp
      then have "find_table (conn_db c') (table_name d) \<noteq> None"
        by (rule execute_statement_created)
      from run_script_keeps [OF this] Inr show ?thesis by simp
    next
      case False
      with Cons.prems(2) have "CreateTable b d \<in> set ss" by simp
      from Cons.IH [OF ok this] Inr show ?thesis by simp
    qed
  qed
qed

text \<open>A plain \<^verbatim>\<open>CREATE TABLE\<close> of a table that exists raises and changes nothing.\<close>

lemma DB_Manager_create_tables_existing:
  assumes "find_table db ''projects'' \<noteq> None"
  shows "DB_Manager_create_tables db = (Inl OperationalError, db)"
  using assms
  by (auto simp: DB_Manager_create_tables_def DB_Manager_create_tables_script_def connect_def
        projects_ddl_def)

text \<open>So after one successful \<^verbatim>\<open>DB_Manager.create_tables\<close>, every further call raises.\<close>

lemma DB_Manager_create_tables_second_call:
  assumes "fst (DB_Manager_create_tables db) = Inr ()"
  shows "DB_Manager_create_tables (snd (DB_Manager_create_tables db)) =
           (Inl OperationalError, snd (DB_Manager_create_tables db))"
proof -
  have "CreateTable False projects_ddl \<in> set DB_Manager_create_tables_script"
    by (simp add: DB_Manager_create_tables_script_def)
  moreover from assms have "fst (run_script (connect db) DB_Manager_create_tables_script) = Inr ()"
    by (simp add: DB_Manager_create_tables_def case_prod_beta)
  ultimately have "find_table (conn_db (snd (run_script (connect db) DB_Manager_create_tables_script)))
                     (table_name projects_ddl) \<noteq> None"
    by (rule run_script_created [rotated])
  then have "find_table (snd (DB_Manager_create_tables db)) ''projects'' \<noteq> None"
    by (simp add: DB_Manager_create_tables_def projects_ddl_def case_prod_beta)
  then show ?thesis by (rule DB_Manager_create_tables_existing)
qed

text \<open>\<^verbatim>\<open>DatabaseManager.create_tables\<close> never raises, changes nothing when its three
  tables exist, and so changes nothing when called again.\<close>

lemma DatabaseManager_create_tables_succeeds:
  "fst (DatabaseManager_create_tables db) = Inr ()"
  by (simp add: DatabaseManager_create_tables_def DatabaseManager_create_tables_script_def
        case_prod_beta split: option.splits)

lemma DatabaseManager_create_tables_existing:
  assumes "find_table db ''users'' \<noteq> None" "find_table db ''status'' \<noteq> None"
    "find_table db ''projects'' \<noteq> None"
  shows "DatabaseManager_create_tables db = (Inr (), db)"
  using assms
  by (auto simp: DatabaseManager_create_tables_def DatabaseManager_create_tables_script_def
        connect_def sql_users_def sql_status_def sql_projects_def)

lemma DatabaseManager_create_tables_idempotent:
  "DatabaseManager_create_tables (snd (DatabaseManager_create_tables db)) =
     (Inr (), snd (DatabaseManager_create_tables db))"
proof -
  let ?c = "snd (run_script (connect db) DatabaseManager_create_tables_script)"
  have ok: "fst (run_script (connect db) DatabaseManager_create_tables_script) = Inr ()"
    using DatabaseManager_create_tables_succeeds [of db]
    by (simp add: DatabaseManager_create_tables_def case_prod_beta)
  have db': "snd (DatabaseManager_create_tables db) = conn_db ?c"
    by (simp add: DatabaseManager_create_tables_def case_prod_beta)
  have "CreateTable True sql_users \<in> set DatabaseManager_create_tables_script"
    by (simp add: DatabaseManager_create_tables_script_def)
  from run_script_created [OF ok this]
  have u: "find_table (conn_db ?c) ''users'' \<noteq> None" by (simp add: sql_users_def)
  have "CreateTable True sql_status \<in> set DatabaseManager_create_tables_script"
    by (simp add: DatabaseManager_create_tables_script_def)
  from run_script_created [OF ok this]
  have s: "find_table (conn_db ?c) ''status'' \<noteq> None" by (simp add: sql_status_def)
  have "CreateTable True sql_projects \<in> set DatabaseManager_create_tables_script"
    by (simp add: DatabaseManager_create_tables_script_def)
  from run_script_created [OF ok this]
  have p: "find_table (conn_db ?c) ''projects'' \<noteq> None" by (simp add: sql_projects_def)
  from DatabaseManager_create_tables_existing [OF u s p] show ?thesis
    by (simp only: db')
qed

text \<open>
  C2. The claim: \<^verbatim>\<open>create_tables\<close> called twice succeeds both times and leaves the
  schema of one call. \<^verbatim>\<open>DB_Manager.create_tables\<close> succeeds on a new file and raises
  \<open>OperationalError\<close> on the database it has just set up, leaving it as it was;
  \<^verbatim>\<open>DatabaseManager.create_tables\<close>, run twice on a new file, succeeds twice and
  changes nothing the second time.
\<close>

theorem DB_Manager_create_tables_twice_fails:
  "DB_Manager_create_tables empty_database = (Inr (), fresh_database)
   \<and> DB_Manager_create_tables fresh_database = (Inl OperationalError, fresh_database)
   \<and> DatabaseManager_create_tables (snd (DatabaseManager_create_tables empty_database)) =
       (Inr (), snd (DatabaseManager_create_tables empty_database))"
  by code_simp

text \<open>
  C9. The claim: every \<^verbatim>\<open>create_tables\<close> turns foreign-key enforcement on before
  its first \<^verbatim>\<open>CREATE TABLE\<close>. On a connection as \<^verbatim>\<open>sqlite3.connect\<close> opens it,
  the statements of \<^verbatim>\<open>DatabaseManager.create_tables\<close> do, and those of
  \<^verbatim>\<open>DB_Manager.create_tables\<close>, which has no \<^verbatim>\<open>PRAGMA\<close>, do not.
\<close>

theorem create_tables_foreign_keys:
  "foreign_keys_on_at_ddl (conn_foreign_keys (connect db)) DatabaseManager_create_tables_script
   \<and> \<not> foreign_keys_on_at_ddl (conn_foreign_keys (connect db)) DB_Manager_create_tables_script"
  by (simp add: connect_def DatabaseManager_create_tables_script_def
        DB_Manager_create_tables_script_def)

subsection \<open>Seeding\<close>

text \<open>Whatever the tables hold, each \<^verbatim>\<open>default_insert\<close> appends the four skills and the
  five statuses once more.\<close>

lemma has_table_catalog: "catalog db' = catalog db \<Longrightarrow> has_table db' t cs = has_table db t cs"
  by (simp add: has_table_def find_table_def)

lemma fold_insert_skills_row:
  "catalog (fold (\<lambda>n. insert_skills_row (Some n)) ns db) = catalog db
   \<and> tbl_status (fold (\<lambda>n. insert_skills_row (Some n)) ns db) = tbl_status db
   \<and> map skill_name (tbl_skills (fold (\<lambda>n. insert_skills_row (Some n)) ns db)) =
       map skill_name (tbl_skills db) @ map Some ns"
  by (induction ns arbitrary: db) (simp_all add: insert_skills_row_def)

lemma fold_insert_status_row:
  "tbl_skills (fold (\<lambda>n. insert_status_row (Some n)) ns db) = tbl_skills db
   \<and> map status_name (tbl_status (fold (\<lambda>n. insert_status_row (Some n)) ns db)) =
       map status_name (tbl_status db) @ map Some ns"
  by (induction ns arbitrary: db) (simp_all add: insert_status_row_def)

lemma default_insert_appends:
  assumes "has_table db ''skills'' [''skill_name'']" "has_table db ''status'' [''status_name'']"
  shows "fst (default_insert db) = Inr ()"
    and "map skill_name (tbl_skills (snd (default_insert db))) =
           map skill_name (tbl_skills db) @ map Some skills"
    and "map status_name (tbl_status (snd (default_insert db))) =
           map status_name (tbl_status db) @ map Some statuses"
proof -
  let ?db1 = "fold (\<lambda>n. insert_skills_row (Some n)) skills db"
  have "catalog ?db1 = catalog db"
    using fold_insert_skills_row [of skills db] by (rule conjunct1)
  from has_table_catalog [OF this] assms(2) have "has_table ?db1 ''status'' [''status_name'']"
    by (rule iffD2)
  with assms(1) have d: "default_insert db = (Inr (), fold (\<lambda>n. insert_status_row (Some n)) statuses ?db1)"
    by (simp add: default_insert_def Let_def)
  from d show "fst (default_insert db) = Inr ()" by simp
  from d fold_insert_status_row [of statuses ?db1] fold_insert_skills_row [of skills db]
  show "map skill_name (tbl_skills (snd (default_insert db))) =
           map skill_name (tbl_skills db) @ map Some skills" by simp
  from d fold_insert_status_row [of statuses ?db1] fold_insert_skills_row [of skills db]
  show "map status_name (tbl_status (snd (default_insert db))) =
           map status_name (tbl_status db) @ map Some statuses" by simp
qed

text \<open>
  C1. The claim: after \<^verbatim>\<open>default_insert\<close> has been called once or more often,
  \<^verbatim>\<open>get_skills\<close> and \<^verbatim>\<open>get_statuses\<close> hold exactly the seeded rows, none of them
  twice. On a new database the first call leaves the four skills; the second call adds
  all four again under the keys 5 to 8, and the five statuses again under 6 to 10:
  neither table declares a constraint the \<^verbatim>\<open>INSERT OR IGNORE\<close> could ignore a row for.
\<close>

theorem default_insert_twice_duplicates:
  "fst (get_skills (snd (default_insert fresh_database))) =
     Inr [(1, Some ''Python''), (2, Some ''SQL''), (3, Some ''API''), (4, Some ''Discord'')]
   \<and> fst (get_skills (snd (default_insert (snd (default_insert fresh_database))))) =
     Inr [(1, Some ''Python''), (2, Some ''SQL''), (3, Some ''API''), (4, Some ''Discord''),
          (5, Some ''Python''), (6, Some ''SQL''), (7, Some ''API''), (8, Some ''Discord'')]
   \<and> map fst (projr (fst (get_statuses (snd (default_insert (snd (default_insert fresh_database))))))) =
     [1, 2, 3, 4, 5, 6, 7, 8, 9, 10]"
  by code_simp

subsection \<open>\<^verbatim>\<open>update_projects\<close>\<close>

text \<open>
  C4. For every column name outside the allow-list and every \<^verbatim>\<open>data\<close>,
  \<^verbatim>\<open>update_projects\<close> raises \<^verbatim>\<open>ValueError("Invalid column")\<close> and leaves the
  whole database as it was.
\<close>

theorem update_projects_invalid_column:
  "param \<notin> allowed \<Longrightarrow>
   update_projects numeric db param data = (Inl (ValueError ''Invalid column''), db)"
  by (simp add: update_projects_def)

theorem update_projects_invalid_column_witness:
  "''bad_col'' \<notin> allowed
   \<and> update_projects keep_text example_database ''bad_col'' (PyInt 3, Some 7, Some 1) =
       (Inl (ValueError ''Invalid column''), example_database)"
proof -
  have h: "''bad_col'' \<notin> allowed" by (simp add: allowed_def)
  from update_projects_invalid_column [OF h] h show ?thesis by simp
qed

lemma allowed_cases:
  "param \<in> allowed \<Longrightarrow>
   param = ''project_name'' \<or> param = ''description'' \<or> param = ''url'' \<or> param = ''status_id''"
  by (simp add: allowed_def)

text \<open>The one way \<^verbatim>\<open>SET {param} = ?\<close> fails on a row: \<^verbatim>\<open>NULL\<close> for the project name.\<close>

lemma text_affinity_None: "text_affinity v = None \<longleftrightarrow> v = PyNone"
  by (cases v) (simp_all add: text_affinity_def)

lemma set_column_Inl:
  "set_column numeric param v p = Inl e \<longleftrightarrow>
   param = ''project_name'' \<and> v = PyNone \<and> e = IntegrityError"
proof (cases "param = ''project_name''")
  case True
  then show ?thesis
    by (cases "text_affinity v")
       (auto simp: set_column_def text_affinity_None [symmetric])
next
  case False
  then show ?thesis by (simp add: set_column_def)
qed

lemma set_column_result:
  assumes "param \<in> allowed" "set_column numeric param v p = Inr p'"
  shows "project_column param p' = Some (stored_value numeric param v)"
proof -
  from allowed_cases [OF assms(1)] consider
    "param = ''project_name''" | "param = ''description''" | "param = ''url''" | "param = ''status_id''"
    by blast
  then show ?thesis
  proof cases
    case 1
    with assms(2) show ?thesis
      by (cases "text_affinity v") (auto simp: set_column_def project_column_def stored_value_def)
  next
    case 2
    with assms(2) show ?thesis
      by (cases "text_affinity v") (auto simp: set_column_def project_column_def stored_value_def)
  next
    case 3
    with assms(2) show ?thesis
      by (cases "text_affinity v") (auto simp: set_column_def project_column_def stored_value_def)
  next
    case 4
    with assms(2) show ?thesis
      by (auto simp: set_column_def project_column_def stored_value_def)
  qed
qed

lemma set_column_fields:
  assumes "param \<in> allowed" "set_column numeric param v p = Inr p'"
  shows "project_id p' = project_id p" and "user_id p' = user_id p"
    and "param \<noteq> ''project_name'' \<Longrightarrow> project_name p' = project_name p"
    and "param \<noteq> ''description'' \<Longrightarrow> description p' = description p"
    and "param \<noteq> ''url'' \<Longrightarrow> url p' = url p"
    and "param \<noteq> ''status_id'' \<Longrightarrow> fk_status_id p' = fk_status_id p"
proof -
  from allowed_cases [OF assms(1)] consider
    "param = ''project_name''" | "param = ''description''" | "param = ''url''" | "param = ''status_id''"
    by blast
  then have "project_id p' = project_id p \<and> user_id p' = user_id p
     \<and> (param \<noteq> ''project_name'' \<longrightarrow> project_name p' = project_name p)
     \<and> (param \<noteq> ''description'' \<longrightarrow> description p' = description p)
     \<and> (param \<noteq> ''url'' \<longrightarrow> url p' = url p)
     \<and> (param \<noteq> ''status_id'' \<longrightarrow> fk_status_id p' = fk_status_id p)"
  proof cases
    case 1
    with assms(2) show ?thesis by (cases "text_affinity v") (auto simp: set_column_def)
  next
    case 2
    with assms(2) show ?thesis by (auto simp: set_column_def)
  next
    case 3
    with assms(2) show ?thesis by (auto simp: set_column_def)
  next
    case 4
    with assms(2) show ?thesis by (auto simp: set_column_def)
  qed
  then show "project_id p' = project_id p" and "user_id p' = user_id p"
    and "param \<noteq> ''project_name'' \<Longrightarrow> project_name p' = project_name p"
    and "param \<noteq> ''description'' \<Longrightarrow> description p' = description p"
    and "param \<noteq> ''url'' \<Longrightarrow> url p' = url p"
    and "param \<noteq> ''status_id'' \<Longrightarrow> fk_status_id p' = fk_status_id p"
    by blast+
qed

lemma project_column_other:
  assumes "c \<noteq> ''project_id''" "c \<noteq> ''user_id''" "c \<noteq> ''project_name''"
    "c \<noteq> ''description''" "c \<noteq> ''url''" "c \<noteq> ''status_id''"
  shows "project_column c p = None"
  unfolding project_column_def using assms by (simp only: if_False)

lemma set_column_frame:
  assumes a: "param \<in> allowed" and s: "set_column numeric param v p = Inr p'" and c: "c \<noteq> param"
  shows "project_column c p' = project_column c p"
proof -
  note f = set_column_fields [OF a s]
  consider "c = ''project_id''" | "c = ''user_id''" | "c = ''project_name''"
    | "c = ''description''" | "c = ''url''" | "c = ''status_id''"
    | "c \<noteq> ''project_id''" "c \<noteq> ''user_id''" "c \<noteq> ''project_name''"
      "c \<noteq> ''description''" "c \<noteq> ''url''" "c \<noteq> ''status_id''"
    by blast
  then show ?thesis
  proof cases
    case 1
    with f(1) show ?thesis by (simp add: project_column_def)
  next
    case 2
    with f(2) show ?thesis by (simp add: project_column_def)
  next
    case 3
    with c have "param \<noteq> ''project_name''" by blast
    from f(3) [OF this] 3 show ?thesis by (simp add: project_column_def)
  next
    case 4
    with c have "param \<noteq> ''description''" by blast
    from f(4) [OF this] 4 show ?thesis by (simp add: project_column_def)
  next
    case 5
    with c have "param \<noteq> ''url''" by blast
    from f(5) [OF this] 5 show ?thesis by (simp add: project_column_def)
  next
    case 6
    with c have "param \<noteq> ''status_id''" by blast
    from f(6) [OF this] 6 show ?thesis by (simp add: project_column_def)
  next
    case 7
    from project_column_other [OF 7, of p'] project_column_other [OF 7, of p]
    show ?thesis by (rule trans [OF _ sym])
  qed
qed

lemma map_sum_id_Inr: "map_sum id f x = Inr y \<longleftrightarrow> (\<exists>z. x = Inr z \<and> y = f z)"
  by (cases x) auto

lemma map_sum_id_Inl: "map_sum id f x = Inl e \<longleftrightarrow> x = Inl e"
  by (cases x) auto

lemma update_rows_Cons_Inr:
  assumes "update_rows numeric param v uid pid (p # ps) = Inr ps'"
  shows "\<exists>q qs. ps' = q # qs \<and> update_rows numeric param v uid pid ps = Inr qs
           \<and> (if matches uid pid p then set_column numeric param v p = Inr q else q = p)"
proof (cases "matches uid pid p")
  case True
  show ?thesis
  proof (cases "set_column numeric param v p")
    case (Inl e)
    with True assms show ?thesis by simp
  next
    case (Inr q)
    with True assms obtain qs where "update_rows numeric param v uid pid ps = Inr qs" "ps' = q # qs"
      by (auto simp: map_sum_id_Inr)
    with True Inr show ?thesis by simp
  qed
next
  case False
  with assms obtain qs where "update_rows numeric param v uid pid ps = Inr qs" "ps' = p # qs"
    by (auto simp: map_sum_id_Inr)
  with False show ?thesis by simp
qed

lemma update_rows_nth:
  "update_rows numeric param v uid pid ps = Inr ps' \<Longrightarrow>
   length ps' = length ps \<and>
   (\<forall>i < length ps. if matches uid pid (ps ! i)
                     then set_column numeric param v (ps ! i) = Inr (ps' ! i)
                     else ps' ! i = ps ! i)"
proof (induction ps arbitrary: ps')
  case Nil
  then show ?case by simp
next
  case (Cons p ps)
  from update_rows_Cons_Inr [OF Cons.prems] obtain q qs where
    ps': "ps' = q # qs" and qs: "update_rows numeric param v uid pid ps = Inr qs"
    and hd: "if matches uid pid p then set_column numeric param v p = Inr q else q = p"
    by blast
  from Cons.IH [OF qs] have len: "length qs = length ps"
    and tl: "\<And>i. i < length ps \<Longrightarrow>
               (if matches uid pid (ps ! i) then set_column numeric param v (ps ! i) = Inr (qs ! i)
                else qs ! i = ps ! i)"
    by simp_all
  have "if matches uid pid ((p # ps) ! i)
        then set_column numeric param v ((p # ps) ! i) = Inr ((q # qs) ! i)
        else (q # qs) ! i = (p # ps) ! i" if "i < length (p # ps)" for i
  proof (cases i)
    case 0
    with hd show ?thesis by simp
  next
    case (Suc j)
    with that have "j < length ps" by simp
    from tl [OF this] Suc show ?thesis by simp
  qed
  with len ps' show ?case by simp
qed

text \<open>The \<^verbatim>\<open>UPDATE\<close> fails exactly when it would set the project name of a matching
  row to \<^verbatim>\<open>NULL\<close>, and then with \<open>IntegrityError\<close>.\<close>

lemma update_rows_Inl:
  "update_rows numeric param v uid pid ps = Inl e \<longleftrightarrow>
   param = ''project_name'' \<and> v = PyNone \<and> e = IntegrityError
   \<and> (\<exists>p\<in>set ps. matches uid pid p)"
proof (induction ps)
  case Nil
  then show ?case by simp
next
  case (Cons p ps)
  show ?case
  proof (cases "matches uid pid p")
    case False
    with Cons.IH show ?thesis by (simp add: map_sum_id_Inl)
  next
    case True
    show ?thesis
    proof (cases "set_column numeric param v p")
      case (Inl e')
      then have "param = ''project_name'' \<and> v = PyNone \<and> e' = IntegrityError"
        by (simp only: set_column_Inl)
      with True Inl show ?thesis by auto
    next
      case (Inr q)
      then have "\<not> (param = ''project_name'' \<and> v = PyNone)"
        using set_column_Inl [of numeric param v p IntegrityError] by auto
      with True Inr Cons.IH show ?thesis by (auto simp: map_sum_id_Inl)
    qed
  qed
qed

lemma at_most_one_match:
  "distinct (map f xs) \<Longrightarrow> \<forall>x\<in>set xs. P x \<longrightarrow> f x = k \<Longrightarrow> length (filter P xs) \<le> Suc 0"
proof (induction xs)
  case Nil
  then show ?case by simp
next
  case (Cons x xs)
  from Cons.prems have d: "distinct (map f xs)" and notin: "f x \<notin> f ` set xs"
    and all: "\<forall>y\<in>set xs. P y \<longrightarrow> f y = k"
    by simp_all
  show ?case
  proof (cases "P x")
    case True
    with Cons.prems(2) have fx: "f x = k" by simp
    have "\<not> P y" if "y \<in> set xs" for y
    proof
      assume "P y"
      with that all have "f y = f x" using fx by simp
      with that have "f x \<in> f ` set xs" by (metis imageI)
      with notin show False by contradiction
    qed
    then have "filter P xs = []" by (simp add: filter_empty_conv)
    with True show ?thesis by simp
  next
    case False
    with Cons.IH [OF d all] show ?thesis by simp
  qed
qed

lemma update_projects_unfold:
  "param \<in> allowed \<Longrightarrow>
   update_projects numeric db param (v, uid, pid) =
     (if \<not> has_table db ''projects'' [param, ''user_id'', ''project_id'']
      then (Inl OperationalError, db)
      else if bindable_value v \<and> bindable uid \<and> bindable pid then
        (case update_rows numeric param v uid pid (tbl_projects db) of
           Inl e \<Rightarrow> (Inl e, db)
         | Inr rows \<Rightarrow> (Inr (), db\<lparr>tbl_projects := rows\<rparr>))
      else (Inl OverflowError, db))"
  by (simp add: update_projects_def)

text \<open>The outcomes of \<^verbatim>\<open>update_projects\<close> on an allowed column, in the order the code
  reaches them.\<close>

lemma update_projects_outcome:
  assumes "param \<in> allowed" and "update_projects numeric db param (v, uid, pid) = (r, db')"
  shows "(\<not> has_table db ''projects'' [param, ''user_id'', ''project_id'']
            \<and> r = Inl OperationalError \<and> db' = db)
       \<or> (has_table db ''projects'' [param, ''user_id'', ''project_id'']
            \<and> \<not> (bindable_value v \<and> bindable uid \<and> bindable pid)
            \<and> r = Inl OverflowError \<and> db' = db)
       \<or> (has_table db ''projects'' [param, ''user_id'', ''project_id'']
            \<and> bindable_value v \<and> bindable uid \<and> bindable pid
            \<and> param = ''project_name'' \<and> v = PyNone
            \<and> (\<exists>p\<in>set (tbl_projects db). matches uid pid p)
            \<and> r = Inl IntegrityError \<and> db' = db)
       \<or> (has_table db ''projects'' [param, ''user_id'', ''project_id'']
            \<and> bindable_value v \<and> bindable uid \<and> bindable pid
            \<and> \<not> (param = ''project_name'' \<and> v = PyNone
                   \<and> (\<exists>p\<in>set (tbl_projects db). matches uid pid p))
            \<and> r = Inr ()
            \<and> (\<exists>rows. update_rows numeric param v uid pid (tbl_projects db) = Inr rows
                  \<and> db' = db\<lparr>tbl_projects := rows\<rparr>))"
proof -
  define H where "H = has_table db ''projects'' [param, ''user_id'', ''project_id'']"
  define B where "B = (bindable_value v \<and> bindable uid \<and> bindable pid)"
  define N where "N = (param = ''project_name'' \<and> v = PyNone
                       \<and> (\<exists>p\<in>set (tbl_projects db). matches uid pid p))"
  have u: "update_projects numeric db param (v, uid, pid) =
     (if \<not> H then (Inl OperationalError, db)
      else if B then
        (case update_rows numeric param v uid pid (tbl_projects db) of
           Inl e \<Rightarrow> (Inl e, db)
         | Inr rows \<Rightarrow> (Inr (), db\<lparr>tbl_projects := rows\<rparr>))
      else (Inl OverflowError, db))"
    unfolding H_def B_def by (rule update_projects_unfold [OF assms(1)])
  have goal: "(\<not> H \<and> r = Inl OperationalError \<and> db' = db)
       \<or> (H \<and> \<not> B \<and> r = Inl OverflowError \<and> db' = db)
       \<or> (H \<and> B \<and> N \<and> r = Inl IntegrityError \<and> db' = db)
       \<or> (H \<and> B \<and> \<not> N \<and> r = Inr ()
            \<and> (\<exists>rows. update_rows numeric param v uid pid (tbl_projects db) = Inr rows
                  \<and> db' = db\<lparr>tbl_projects := rows\<rparr>))"
  proof (cases H)
    case False
    with u have "update_projects numeric db param (v, uid, pid) = (Inl OperationalError, db)"
      by simp
    with assms(2) have "r = Inl OperationalError" "db' = db" by simp_all
    with False show ?thesis by blast
  next
    case H: True
    show ?thesis
    proof (cases B)
      case False
      with u H have "update_projects numeric db param (v, uid, pid) = (Inl OverflowError, db)"
        by simp
      with assms(2) have "r = Inl OverflowError" "db' = db" by simp_all
      with H False show ?thesis by blast
    next
      case B: True
      with u H have u': "update_projects numeric db param (v, uid, pid) =
          (case update_rows numeric param v uid pid (tbl_projects db) of
             Inl e \<Rightarrow> (Inl e, db)
           | Inr rows \<Rightarrow> (Inr (), db\<lparr>tbl_projects := rows\<rparr>))"
        by simp
      show ?thesis
      proof (cases "update_rows numeric param v uid pid (tbl_projects db)")
        case (Inl e)
        from Inl [unfolded update_rows_Inl] have N "e = IntegrityError"
          unfolding N_def by blast+
        moreover from u' Inl assms(2) have "r = Inl e" "db' = db" by simp_all
        ultimately show ?thesis using H B by blast
      next
        case (Inr rows)
        have "\<not> N"
        proof
          assume N
          then have "update_rows numeric param v uid pid (tbl_projects db) = Inl IntegrityError"
            unfolding N_def update_rows_Inl by blast
          with Inr show False by simp
        qed
        moreover from u' Inr assms(2) have "r = Inr ()" "db' = db\<lparr>tbl_projects := rows\<rparr>"
          by simp_all
        ultimately show ?thesis using H B Inr by blast
      qed
    qed
  qed
  then show ?thesis unfolding H_def B_def N_def by blast
qed

lemma update_projects_cases:
  assumes "param \<in> allowed" and "update_projects numeric db param (v, uid, pid) = (r, db')"
  shows "(db' = db \<and> (\<exists>e. r = Inl e))
       \<or> (\<exists>rows. update_rows numeric param v uid pid (tbl_projects db) = Inr rows
              \<and> db' = db\<lparr>tbl_projects := rows\<rparr> \<and> r = Inr ())"
  using update_projects_outcome [OF assms] by blast

lemma update_projects_returns_iff:
  assumes "param \<in> allowed" and "update_projects numeric db param (v, uid, pid) = (r, db')"
  shows "r = Inr () \<longleftrightarrow>
           has_table db ''projects'' [param, ''user_id'', ''project_id'']
         \<and> bindable_value v \<and> bindable uid \<and> bindable pid
         \<and> \<not> (param = ''project_name'' \<and> v = PyNone
                \<and> (\<exists>p\<in>set (tbl_projects db). matches uid pid p))"
proof -
  define H where "H = has_table db ''projects'' [param, ''user_id'', ''project_id'']"
  define B where "B = (bindable_value v \<and> bindable uid \<and> bindable pid)"
  define N where "N = (param = ''project_name'' \<and> v = PyNone
                       \<and> (\<exists>p\<in>set (tbl_projects db). matches uid pid p))"
  from update_projects_outcome [OF assms]
  have "(\<not> H \<and> r = Inl OperationalError) \<or> (H \<and> \<not> B \<and> r = Inl OverflowError)
      \<or> (H \<and> B \<and> N \<and> r = Inl IntegrityError) \<or> (H \<and> B \<and> \<not> N \<and> r = Inr ())"
    unfolding H_def B_def N_def by blast
  then have "r = Inr () \<longleftrightarrow> H \<and> B \<and> \<not> N" by auto
  then show ?thesis unfolding H_def B_def N_def by blast
qed

lemma update_rows_frame:
  assumes "param \<in> allowed"
    and rows: "update_rows numeric param v uid pid ps = Inr rows"
    and i: "i < length ps"
  shows "(\<not> matches uid pid (ps ! i) \<longrightarrow> rows ! i = ps ! i)
       \<and> (\<forall>c. c \<noteq> param \<longrightarrow> project_column c (rows ! i) = project_column c (ps ! i))
       \<and> (matches uid pid (ps ! i)
            \<longrightarrow> project_column param (rows ! i) = Some (stored_value numeric param v))"
proof (cases "matches uid pid (ps ! i)")
  case True
  from update_rows_nth [OF rows] i True
  have sc: "set_column numeric param v (ps ! i) = Inr (rows ! i)" by simp
  have "project_column param (rows ! i) = Some (stored_value numeric param v)"
    by (rule set_column_result [OF assms(1) sc])
  moreover have "\<forall>c. c \<noteq> param \<longrightarrow> project_column c (rows ! i) = project_column c (ps ! i)"
    using set_column_frame [OF assms(1) sc] by blast
  ultimately show ?thesis using True by blast
next
  case False
  from update_rows_nth [OF rows] i False have "rows ! i = ps ! i" by simp
  with False show ?thesis by simp
qed

lemma matches_at_most_one:
  assumes "distinct (map project_id ps)"
  shows "length (filter (matches uid pid) ps) \<le> 1"
proof -
  have "\<forall>p\<in>set ps. matches uid pid p \<longrightarrow> project_id p = the pid"
    by (simp add: matches_def)
  from at_most_one_match [OF assms this] show ?thesis by simp
qed

text \<open>What is stored is the value itself when it is of the column's kind.\<close>

lemma stored_value_fits:
  "stored_value numeric ''status_id'' (PyInt i) = SqlInt i"
  "param \<noteq> ''status_id'' \<Longrightarrow> stored_value numeric param (PyStr s) = SqlText s"
  "stored_value numeric param PyNone = SqlNull"
  by (simp_all add: stored_value_def integer_affinity_def text_affinity_def)

text \<open>
  C5. For an allowed column and \<^verbatim>\<open>data = (new_value, user_id, project_id)\<close>, on a
  database whose project ids are distinct (the primary key): \<^verbatim>\<open>update_projects\<close>
  leaves the catalog and the tables \<^verbatim>\<open>skills\<close>, \<^verbatim>\<open>project_skills\<close> and \<^verbatim>\<open>status\<close>
  as they were; at most one project row matches the user and project id; a row that does
  not match is unchanged; every column other than the one named keeps its value in every
  row; when the method returns, the named column of the matching row holds the new value
  as the column's affinity stores it. The method returns exactly when the table is there,
  the three values fit 64 bits, and it is not asked to set the name of a matching row to
  \<^verbatim>\<open>NULL\<close>; when it raises, the database is as it was.
\<close>

theorem update_projects_frame:
  assumes "param \<in> allowed"
    and "distinct (map project_id (tbl_projects db))"
    and "update_projects numeric db param (v, uid, pid) = (r, db')"
  shows "catalog db' = catalog db \<and> tbl_skills db' = tbl_skills db
       \<and> tbl_project_skills db' = tbl_project_skills db \<and> tbl_status db' = tbl_status db
       \<and> length (tbl_projects db') = length (tbl_projects db)
       \<and> length (filter (matches uid pid) (tbl_projects db)) \<le> 1
       \<and> (\<forall>i < length (tbl_projects db).
            (\<not> matches uid pid (tbl_projects db ! i)
               \<longrightarrow> tbl_projects db' ! i = tbl_projects db ! i)
          \<and> (\<forall>c. c \<noteq> param \<longrightarrow>
                 project_column c (tbl_projects db' ! i) = project_column c (tbl_projects db ! i))
          \<and> (r = Inr () \<and> matches uid pid (tbl_projects db ! i)
               \<longrightarrow> project_column param (tbl_projects db' ! i)
                     = Some (stored_value numeric param v)))
       \<and> (r = Inr () \<longleftrightarrow>
             has_table db ''projects'' [param, ''user_id'', ''project_id'']
           \<and> bindable_value v \<and> bindable uid \<and> bindable pid
           \<and> \<not> (param = ''project_name'' \<and> v = PyNone
                  \<and> (\<exists>p\<in>set (tbl_projects db). matches uid pid p)))
       \<and> (r \<noteq> Inr () \<longrightarrow> db' = db)"
proof -
  note one = matches_at_most_one [OF assms(2), of uid pid]
  note ret = update_projects_returns_iff [OF assms(1,3)]
  from update_projects_cases [OF assms(1,3)] show ?thesis
  proof (elim disjE conjE exE)
    fix e assume e: "db' = db" "r = Inl e"
    have "catalog db' = catalog db \<and> tbl_skills db' = tbl_skills db
       \<and> tbl_project_skills db' = tbl_project_skills db \<and> tbl_status db' = tbl_status db
       \<and> length (tbl_projects db') = length (tbl_projects db)"
      by (simp add: e)
    moreover have "\<forall>i < length (tbl_projects db).
            (\<not> matches uid pid (tbl_projects db ! i)
               \<longrightarrow> tbl_projects db' ! i = tbl_projects db ! i)
          \<and> (\<forall>c. c \<noteq> param \<longrightarrow>
                 project_column c (tbl_projects db' ! i) = project_column c (tbl_projects db ! i))
          \<and> (r = Inr () \<and> matches uid pid (tbl_projects db ! i)
               \<longrightarrow> project_column param (tbl_projects db' ! i)
                     = Some (stored_value numeric param v))"
      by (simp add: e)
    moreover have "r \<noteq> Inr () \<longrightarrow> db' = db" by (simp add: e)
    ultimately show ?thesis using one ret by blast
  next
    fix rows
    assume rows: "update_rows numeric param v uid pid (tbl_projects db) = Inr rows"
      and db': "db' = db\<lparr>tbl_projects := rows\<rparr>" and r: "r = Inr ()"
    from update_rows_nth [OF rows] have len: "length rows = length (tbl_projects db)"
      by (rule conjunct1)
    have t: "tbl_projects db' = rows" and o: "catalog db' = catalog db"
      "tbl_skills db' = tbl_skills db" "tbl_project_skills db' = tbl_project_skills db"
      "tbl_status db' = tbl_status db"
      by (simp_all add: db')
    have "\<forall>i < length (tbl_projects db).
            (\<not> matches uid pid (tbl_projects db ! i) \<longrightarrow> rows ! i = tbl_projects db ! i)
          \<and> (\<forall>c. c \<noteq> param \<longrightarrow>
                 project_column c (rows ! i) = project_column c (tbl_projects db ! i))
          \<and> (r = Inr () \<and> matches uid pid (tbl_projects db ! i)
               \<longrightarrow> project_column param (rows ! i) = Some (stored_value numeric param v))"
      using update_rows_frame [OF assms(1) rows] by blast
    moreover have "r \<noteq> Inr () \<longrightarrow> db' = db" using r by blast
    ultimately show ?thesis using one len o ret unfolding t by blast
  qed
qed

theorem update_projects_frame_witness:
  "''status_id'' \<in> allowed
   \<and> distinct (map project_id (tbl_projects example_database))
   \<and> fst (update_projects keep_text example_database ''status_id'' (PyInt 3, Some 7, Some 1)) = Inr ()
   \<and> tbl_skills (snd (update_projects keep_text example_database ''status_id'' (PyInt 3, Some 7, Some 1)))
       = tbl_skills example_database
   \<and> tbl_projects (snd (update_projects keep_text example_database ''status_id'' (PyInt 3, Some 7, Some 1))) ! 1
       = tbl_projects example_database ! 1
   \<and> project_column ''status_id''
        (tbl_projects (snd (update_projects keep_text example_database ''status_id'' (PyInt 3, Some 7, Some 1))) ! 0)
       = Some (SqlInt 3)
   \<and> project_column ''description''
        (tbl_projects (snd (update_projects keep_text example_database ''status_id'' (PyInt 3, Some 7, Some 1))) ! 0)
       = Some (SqlText ''a Discord bot'')"
proof -
  let ?u = "update_projects keep_text example_database ''status_id'' (PyInt 3, Some 7, Some 1)"
  have h1: "''status_id'' \<in> allowed" by (simp add: allowed_def)
  have h2: "distinct (map project_id (tbl_projects example_database))" by code_simp
  have h3: "?u = (fst ?u, snd ?u)" by (rule prod.collapse [symmetric])
  have m0: "matches (Some 7) (Some 1) (tbl_projects example_database ! 0)" by code_simp
  have m1: "\<not> matches (Some 7) (Some 1) (tbl_projects example_database ! 1)" by code_simp
  have l0: "0 < length (tbl_projects example_database)" by code_simp
  have l1: "1 < length (tbl_projects example_database)" by code_simp
  have d: "project_column ''description'' (tbl_projects example_database ! 0)
             = Some (SqlText ''a Discord bot'')" by code_simp
  have n: "''description'' \<noteq> ''status_id''" by simp
  have ht: "has_table example_database ''projects'' [''status_id'', ''user_id'', ''project_id'']"
    by code_simp
  have b: "bindable_value (PyInt 3) \<and> bindable (Some 7) \<and> bindable (Some 1)" by code_simp
  have nn: "\<not> (''status_id'' = ''project_name'' \<and> PyInt 3 = PyNone
               \<and> (\<exists>p\<in>set (tbl_projects example_database). matches (Some 7) (Some 1) p))"
    by simp
  have sv: "stored_value keep_text ''status_id'' (PyInt 3) = SqlInt 3"
    by (rule stored_value_fits(1))
  note t = update_projects_frame [OF h1 h2 h3]
  note sk = t [THEN conjunct2, THEN conjunct1]
  note rows = t [THEN conjunct2, THEN conjunct2, THEN conjunct2, THEN conjunct2,
                 THEN conjunct2, THEN conjunct2, THEN conjunct1, rule_format]
  note ret = t [THEN conjunct2, THEN conjunct2, THEN conjunct2, THEN conjunct2,
                THEN conjunct2, THEN conjunct2, THEN conjunct2, THEN conjunct1]
  have r: "fst ?u = Inr ()"
    by (rule ret [THEN iffD2]) (intro conjI ht b [THEN conjunct1]
          b [THEN conjunct2, THEN conjunct1] b [THEN conjunct2, THEN conjunct2] nn)
  have a: "tbl_projects (snd ?u) ! 1 = tbl_projects example_database ! 1"
    by (rule rows [OF l1, THEN conjunct1, rule_format, OF m1])
  have "project_column ''status_id'' (tbl_projects (snd ?u) ! 0)
          = Some (stored_value keep_text ''status_id'' (PyInt 3))"
    by (rule rows [OF l0, THEN conjunct2, THEN conjunct2, rule_format, OF conjI [OF r m0]])
  then have b': "project_column ''status_id'' (tbl_projects (snd ?u) ! 0) = Some (SqlInt 3)"
    by (simp only: sv)
  have "project_column ''description'' (tbl_projects (snd ?u) ! 0)
          = project_column ''description'' (tbl_projects example_database ! 0)"
    by (rule rows [OF l0, THEN conjunct2, THEN conjunct1, rule_format, OF n])
  then have c: "project_column ''description'' (tbl_projects (snd ?u) ! 0)
                  = Some (SqlText ''a Discord bot'')"
    by (rule trans [OF _ d])
  show ?thesis by (intro conjI h1 h2 r sk a b' c)
qed

text \<open>\<^verbatim>\<open>update_projects\<close> never touches a key, so the project ids stay distinct.\<close>

lemma update_projects_distinct:
  assumes "param \<in> allowed" and "distinct (map project_id (tbl_projects db))"
  shows "distinct (map project_id
           (tbl_projects (snd (update_projects numeric db param (v, uid, pid)))))"
proof -
  obtain r db' where u: "update_projects numeric db param (v, uid, pid) = (r, db')"
    by (cases "update_projects numeric db param (v, uid, pid)") blast
  from update_projects_cases [OF assms(1) u] show ?thesis
  proof (elim disjE conjE exE)
    fix e assume "db' = db"
    with u assms(2) show ?thesis by simp
  next
    fix rows
    assume rows: "update_rows numeric param v uid pid (tbl_projects db) = Inr rows"
      and db': "db' = db\<lparr>tbl_projects := rows\<rparr>"
    from update_rows_nth [OF rows] have len: "length rows = length (tbl_projects db)"
      by (rule conjunct1)
    have "project_id (rows ! i) = project_id (tbl_projects db ! i)"
      if i: "i < length (tbl_projects db)" for i
    proof (cases "matches uid pid (tbl_projects db ! i)")
      case True
      with update_rows_nth [OF rows] i
      have "set_column numeric param v (tbl_projects db ! i) = Inr (rows ! i)" by simp
      from set_column_fields(1) [OF assms(1) this] show ?thesis .
    next
      case False
      with update_rows_nth [OF rows] i show ?thesis by simp
    qed
    with len have "map project_id rows = map project_id (tbl_projects db)"
      by (intro nth_equalityI) simp_all
    with assms(2) u db' show ?thesis by simp
  qed
qed

subsection \<open>Lookups\<close>

lemma select_project_id_empty:
  "(\<forall>p\<in>set (tbl_projects db). \<not> (sql_eq (Some (project_name p)) name \<and> sql_eq (user_id p) uid))
   \<Longrightarrow> select_project_id db name uid = []"
  by (simp add: select_project_id_def filter_empty_conv)

lemma filter_first:
  assumes "xs = pre @ q # post" "P q" "\<forall>x\<in>set pre. \<not> P x"
  shows "filter P xs = q # filter P post"
proof -
  from assms(3) have "filter P pre = []" by (simp add: filter_empty_conv)
  with assms(1,2) show ?thesis by simp
qed

text \<open>Keys: a new rowid is in use nowhere in the table, so \<^verbatim>\<open>insert_project\<close> keeps the
  project ids distinct.\<close>

lemma fold_max_ge: "(a::int) \<le> fold max xs a \<and> (\<forall>x\<in>set xs. x \<le> fold max xs a)"
proof (induction xs arbitrary: a)
  case Nil
  then show ?case by simp
next
  case (Cons x xs)
  from Cons.IH [of "max x a"] show ?case by auto
qed

lemma next_rowid_fresh: "next_rowid ids \<notin> set ids"
proof (cases ids)
  case Nil
  then show ?thesis by simp
next
  case (Cons i js)
  from fold_max_ge [of i js] have "\<forall>x\<in>set ids. x < next_rowid ids"
    by (auto simp: Cons next_rowid_def)
  then show ?thesis by blast
qed

lemma insert_project_rows_distinct:
  "insert_project_rows rows data = Inr rows' \<Longrightarrow> distinct (map project_id rows)
   \<Longrightarrow> distinct (map project_id rows')"
proof (induction data arbitrary: rows)
  case Nil
  then show ?case by simp
next
  case (Cons x data)
  obtain u n d l s where x: "x = (u, n, d, l, s)" by (cases x) auto
  from Cons.prems(1) obtain name where n: "n = Some name"
    and rec: "insert_project_rows
                (rows @ [\<lparr>project_id = next_rowid (map project_id rows), user_id = u,
                           project_name = name, description = d, url = l,
                           fk_status_id = sql_int s\<rparr>]) data = Inr rows'"
    unfolding x by (cases n) (auto split: if_splits)
  from Cons.prems(2) next_rowid_fresh [of "map project_id rows"]
  have "distinct (map project_id
          (rows @ [\<lparr>project_id = next_rowid (map project_id rows), user_id = u,
                    project_name = name, description = d, url = l,
                    fk_status_id = sql_int s\<rparr>]))"
    by simp
  from Cons.IH [OF rec this] show ?case .
qed

lemma insert_project_distinct:
  assumes "distinct (map project_id (tbl_projects db))"
  shows "distinct (map project_id (tbl_projects (snd (insert_project db data))))"
proof (cases "insert_project_rows (tbl_projects db) data")
  case (Inl e)
  with assms show ?thesis by (simp add: insert_project_def)
next
  case (Inr rows)
  from insert_project_rows_distinct [OF Inr assms] Inr assms show ?thesis
    by (simp add: insert_project_def)
qed

text \<open>A project inserted under a name and user that no row has yet is found by
  \<^verbatim>\<open>get_project_id\<close>, which returns the key the insert gave it: one more than the
  largest key, as long as that fits 64 bits.\<close>

lemma insert_project_then_get_project_id:
  assumes "has_table db ''projects''
             [''user_id'', ''project_name'', ''description'', ''url'', ''status_id'']"
    and "has_table db ''projects'' [''project_id'', ''project_name'', ''user_id'']"
    and "in_range64 u" and "bindable s"
    and "\<forall>p\<in>set (tbl_projects db). \<not> (project_name p = n \<and> user_id p = Some u)"
    and "in_range64 (next_rowid (map project_id (tbl_projects db)))"
  shows "fst (insert_project db [(Some u, Some n, d, l, s)]) = Inr ()"
    and "fst (get_project_id (snd (insert_project db [(Some u, Some n, d, l, s)])) (Some n) (Some u))
           = Inr (next_rowid (map project_id (tbl_projects db)))"
proof -
  let ?new = "\<lparr>project_id = next_rowid (map project_id (tbl_projects db)), user_id = Some u,
               project_name = n, description = d, url = l, fk_status_id = sql_int s\<rparr>"
  let ?db' = "db\<lparr>tbl_projects := tbl_projects db @ [?new]\<rparr>"
  from assms(3) have bu: "bindable (Some u)" by (simp add: bindable_def)
  from assms(1) bu assms(4) have i: "insert_project db [(Some u, Some n, d, l, s)] = (Inr (), ?db')"
    by (simp add: insert_project_def)
  then show "fst (insert_project db [(Some u, Some n, d, l, s)]) = Inr ()" by simp
  have "catalog ?db' = catalog db" by simp
  from has_table_catalog [OF this] assms(2)
  have h: "has_table ?db' ''projects'' [''project_id'', ''project_name'', ''user_id'']"
    by (rule iffD2)
  from assms(5) have "filter (\<lambda>p. project_name p = n \<and> user_id p = Some u) (tbl_projects db) = []"
    by (simp add: filter_empty_conv)
  then have "select_project_id ?db' (Some n) (Some u) = [next_rowid (map project_id (tbl_projects db))]"
    by (simp add: select_project_id_def)
  with h bu have "get_project_id ?db' (Some n) (Some u)
                 = (Inr (next_rowid (map project_id (tbl_projects db))), ?db')"
    by (simp add: get_project_id_def)
  with i show "fst (get_project_id (snd (insert_project db [(Some u, Some n, d, l, s)])) (Some n) (Some u))
           = Inr (next_rowid (map project_id (tbl_projects db)))"
    by simp
qed

lemma delete_project_distinct:
  "distinct (map project_id (tbl_projects db)) \<Longrightarrow>
   distinct (map project_id (tbl_projects (snd (delete_project db uid pid))))"
  by (simp add: delete_project_def distinct_map_filter)

text \<open>
  C6, as amended. On a database with the \<^verbatim>\<open>projects\<close> table, for a user id that fits
  64 bits or is \<^verbatim>\<open>None\<close>: \<^verbatim>\<open>get_project_id\<close> returns the id of the first project
  row, in the order of the table, whose name and user are the ones asked for, so a
  project's own id when no row before it has its name and user; and when no row has
  them, which is so for every name with the user \<^verbatim>\<open>None\<close>, it raises
  \<^verbatim>\<open>ValueError("Project not found")\<close>. For a user id that does not fit 64 bits it raises
  \<open>OverflowError\<close>. The database is unchanged in each case.
\<close>

theorem get_project_id_first_match:
  assumes "has_table db ''projects'' [''project_id'', ''project_name'', ''user_id'']"
  shows "(bindable uid \<longrightarrow>
            (\<forall>pre q post.
               tbl_projects db = pre @ q # post
               \<and> sql_eq (Some (project_name q)) name \<and> sql_eq (user_id q) uid
               \<and> (\<forall>x\<in>set pre. \<not> (sql_eq (Some (project_name x)) name \<and> sql_eq (user_id x) uid))
               \<longrightarrow> get_project_id db name uid = (Inr (project_id q), db))
          \<and> ((\<forall>p\<in>set (tbl_projects db).
                 \<not> (sql_eq (Some (project_name p)) name \<and> sql_eq (user_id p) uid))
               \<longrightarrow> get_project_id db name uid = (Inl (ValueError ''Project not found''), db)))
       \<and> (\<not> bindable uid \<longrightarrow> get_project_id db name uid = (Inl OverflowError, db))"
proof (intro conjI impI allI)
  fix pre q post
  assume b: "bindable uid"
    and "tbl_projects db = pre @ q # post
               \<and> sql_eq (Some (project_name q)) name \<and> sql_eq (user_id q) uid
               \<and> (\<forall>x\<in>set pre. \<not> (sql_eq (Some (project_name x)) name \<and> sql_eq (user_id x) uid))"
  then have "filter (\<lambda>p. sql_eq (Some (project_name p)) name \<and> sql_eq (user_id p) uid)
               (tbl_projects db)
             = q # filter (\<lambda>p. sql_eq (Some (project_name p)) name \<and> sql_eq (user_id p) uid) post"
    by (intro filter_first) blast+
  then have "select_project_id db name uid
             = project_id q # map project_id
                 (filter (\<lambda>p. sql_eq (Some (project_name p)) name \<and> sql_eq (user_id p) uid) post)"
    by (simp add: select_project_id_def)
  with assms b show "get_project_id db name uid = (Inr (project_id q), db)"
    by (simp add: get_project_id_def)
next
  assume b: "bindable uid"
    and "\<forall>p\<in>set (tbl_projects db).
               \<not> (sql_eq (Some (project_name p)) name \<and> sql_eq (user_id p) uid)"
  then have "select_project_id db name uid = []" by (intro select_project_id_empty)
  with assms b show "get_project_id db name uid = (Inl (ValueError ''Project not found''), db)"
    by (simp add: get_project_id_def)
next
  assume "\<not> bindable uid"
  with assms show "get_project_id db name uid = (Inl OverflowError, db)"
    by (simp add: get_project_id_def)
qed

lemma example_projects:
  "tbl_projects example_database =
     [] @ \<lparr>project_id = 1, user_id = Some 7, project_name = ''bot'',
            description = Some ''a Discord bot'', url = None, fk_status_id = SqlInt 1\<rparr>
        # [\<lparr>project_id = 2, user_id = Some 8, project_name = ''site'',
             description = None, url = None, fk_status_id = SqlNull\<rparr>]"
  by code_simp

theorem get_project_id_first_match_witness:
  "has_table example_database ''projects'' [''project_id'', ''project_name'', ''user_id'']
   \<and> bindable (Some 7) \<and> bindable (Some 8) \<and> \<not> bindable (Some 9223372036854775808)
   \<and> get_project_id example_database (Some ''bot'') (Some 7) = (Inr 1, example_database)
   \<and> get_project_id example_database (Some ''bot'') (Some 8) =
       (Inl (ValueError ''Project not found''), example_database)
   \<and> get_project_id example_database (Some ''bot'') (Some 9223372036854775808) =
       (Inl OverflowError, example_database)"
proof -
  have h: "has_table example_database ''projects'' [''project_id'', ''project_name'', ''user_id'']"
    by code_simp
  have b7: "bindable (Some 7)" and b8: "bindable (Some 8)"
    and nb: "\<not> bindable (Some 9223372036854775808)"
    by code_simp+
  note t7 = get_project_id_first_match [OF h, of "Some 7" "Some ''bot''", THEN conjunct1, THEN mp,
              OF b7, THEN conjunct1, THEN spec, THEN spec, THEN spec, THEN mp]
  have a: "get_project_id example_database (Some ''bot'') (Some 7) = (Inr 1, example_database)"
    using t7 [OF conjI [OF example_projects]] by simp
  note t8 = get_project_id_first_match [OF h, of "Some 8" "Some ''bot''", THEN conjunct1, THEN mp,
              OF b8, THEN conjunct2, THEN mp]
  have "list_all (\<lambda>p. \<not> (sql_eq (Some (project_name p)) (Some ''bot'') \<and> sql_eq (user_id p) (Some 8)))
          (tbl_projects example_database)"
    by code_simp
  then have "\<forall>p\<in>set (tbl_projects example_database).
               \<not> (sql_eq (Some (project_name p)) (Some ''bot'') \<and> sql_eq (user_id p) (Some 8))"
    by (simp only: list_all_iff)
  from t8 [OF this]
  have b: "get_project_id example_database (Some ''bot'') (Some 8) =
       (Inl (ValueError ''Project not found''), example_database)" .
  from get_project_id_first_match [OF h, of "Some 9223372036854775808" "Some ''bot''",
         THEN conjunct2, THEN mp, OF nb]
  have c: "get_project_id example_database (Some ''bot'') (Some 9223372036854775808) =
       (Inl OverflowError, example_database)" .
  show ?thesis by (intro conjI h b7 b8 nb a b c)
qed

text \<open>
  C6 as it was stated, that \<^verbatim>\<open>get_project_id\<close> returns the id of every inserted
  project and raises NotFound whenever no row matches, fails for a project inserted after
  another of the same name and user (the first one's id is returned), for a project
  inserted without a user (no row matches a \<^verbatim>\<open>NULL\<close> user, so the lookup raises), and
  for a user id that does not fit 64 bits (\<open>OverflowError\<close>, not NotFound).
\<close>

theorem get_project_id_counterexample:
  "map project_id (tbl_projects same_name_database) = [1, 2, 3]
   \<and> map project_name (tbl_projects same_name_database) = [''bot'', ''bot'', ''solo'']
   \<and> map user_id (tbl_projects same_name_database) = [Some 7, Some 7, None]
   \<and> fst (get_project_id same_name_database (Some ''bot'') (Some 7)) = Inr 1
   \<and> fst (get_project_id same_name_database (Some ''bot'') (Some 7)) \<noteq> Inr 2
   \<and> fst (get_project_id same_name_database (Some ''solo'') None) =
       Inl (ValueError ''Project not found'')
   \<and> fst (get_project_id same_name_database (Some ''ghost'') (Some 9223372036854775808)) =
       Inl OverflowError"
  by code_simp

text \<open>
  C7. On a database with the \<^verbatim>\<open>status\<close> table, \<^verbatim>\<open>get_status_id\<close> raises for no
  name: it returns \<^verbatim>\<open>None\<close> exactly when no status row has the name, and otherwise
  the id of a row that has it.
\<close>

theorem get_status_id_never_raises:
  assumes "has_table db ''status'' [''status_id'', ''status_name'']"
  shows "\<exists>r. get_status_id db name = (Inr r, db) \<and>
     (case r of
        None \<Rightarrow> \<forall>s\<in>set (tbl_status db). \<not> sql_eq (status_name s) name
      | Some i \<Rightarrow> \<exists>s\<in>set (tbl_status db). sql_eq (status_name s) name \<and> status_id s = i)"
proof (cases "filter (\<lambda>s. sql_eq (status_name s) name) (tbl_status db)")
  case Nil
  then have "\<forall>s\<in>set (tbl_status db). \<not> sql_eq (status_name s) name"
    by (simp add: filter_empty_conv)
  with Nil assms show ?thesis by (simp add: get_status_id_def)
next
  case (Cons s ss)
  then have "s \<in> set (filter (\<lambda>s. sql_eq (status_name s) name) (tbl_status db))" by simp
  then have "s \<in> set (tbl_status db)" "sql_eq (status_name s) name" by simp_all
  with Cons assms show ?thesis by (auto simp: get_status_id_def)
qed

theorem get_status_id_never_raises_witness:
  "has_table example_database ''status'' [''status_id'', ''status_name'']
   \<and> get_status_id example_database (Some ''Diperbarui'') = (Inr (Some 4), example_database)
   \<and> get_status_id example_database (Some ''Ditunda'') = (Inr None, example_database)"
proof -
  have h: "has_table example_database ''status'' [''status_id'', ''status_name'']" by code_simp
  obtain r where r: "get_status_id example_database (Some ''Diperbarui'') = (Inr r, example_database)"
    using get_status_id_never_raises [OF h] by blast
  obtain r' where r': "get_status_id example_database (Some ''Ditunda'') = (Inr r', example_database)"
    using get_status_id_never_raises [OF h] by blast
  have "fst (get_status_id example_database (Some ''Diperbarui'')) = Inr (Some 4)" by code_simp
  moreover have "fst (get_status_id example_database (Some ''Ditunda'')) = Inr None" by code_simp
  ultimately show ?thesis using h r r' by simp
qed

subsection \<open>\<^verbatim>\<open>delete_project\<close>\<close>

lemma filter_no_match: "\<forall>p\<in>set ps. \<not> P p \<Longrightarrow> filter (\<lambda>p. \<not> P p) ps = ps"
  by (induction ps) auto

text \<open>
  C8, as amended. On a database with the \<^verbatim>\<open>projects\<close> table: \<^verbatim>\<open>delete_project\<close> on a
  user and project id that fit 64 bits (or are \<^verbatim>\<open>None\<close>) and that no project row
  matches returns without an exception and leaves every table as it was; on an id that
  does not fit 64 bits it raises \<open>OverflowError\<close>, and leaves every table as it was.
\<close>

theorem delete_project_no_match:
  assumes "has_table db ''projects'' [''user_id'', ''project_id'']"
  shows "(bindable uid \<and> bindable pid \<and> (\<forall>p\<in>set (tbl_projects db). \<not> matches uid pid p)
            \<longrightarrow> delete_project db uid pid = (Inr (), db))
       \<and> (\<not> (bindable uid \<and> bindable pid)
            \<longrightarrow> delete_project db uid pid = (Inl OverflowError, db))"
proof (intro conjI impI)
  assume "bindable uid \<and> bindable pid \<and> (\<forall>p\<in>set (tbl_projects db). \<not> matches uid pid p)"
  with assms show "delete_project db uid pid = (Inr (), db)"
    by (simp add: delete_project_def filter_no_match)
next
  assume "\<not> (bindable uid \<and> bindable pid)"
  with assms show "delete_project db uid pid = (Inl OverflowError, db)"
    by (simp add: delete_project_def)
qed

theorem delete_project_no_match_witness:
  "has_table example_database ''projects'' [''user_id'', ''project_id'']
   \<and> bindable (Some 7) \<and> bindable (Some 2) \<and> \<not> bindable (Some 9223372036854775808)
   \<and> filter (matches (Some 7) (Some 2)) (tbl_projects example_database) = []
   \<and> delete_project example_database (Some 7) (Some 2) = (Inr (), example_database)
   \<and> delete_project example_database (Some 9223372036854775808) (Some 2) =
       (Inl OverflowError, example_database)"
proof -
  have h1: "has_table example_database ''projects'' [''user_id'', ''project_id'']" by code_simp
  have b7: "bindable (Some 7)" and b2: "bindable (Some 2)"
    and nb: "\<not> bindable (Some 9223372036854775808)"
    by code_simp+
  have h2: "filter (matches (Some 7) (Some 2)) (tbl_projects example_database) = []" by code_simp
  then have h3: "\<forall>p\<in>set (tbl_projects example_database). \<not> matches (Some 7) (Some 2) p"
    by (simp add: filter_empty_conv)
  from delete_project_no_match [OF h1, of "Some 7" "Some 2", THEN conjunct1, THEN mp,
         OF conjI [OF b7 conjI [OF b2 h3]]]
  have a: "delete_project example_database (Some 7) (Some 2) = (Inr (), example_database)" .
  from nb have "\<not> (bindable (Some 9223372036854775808) \<and> bindable (Some 2))" by blast
  from delete_project_no_match [OF h1, of "Some 9223372036854775808" "Some 2", THEN conjunct2,
         THEN mp, OF this]
  have b: "delete_project example_database (Some 9223372036854775808) (Some 2) =
       (Inl OverflowError, example_database)" .
  show ?thesis by (intro conjI h1 b7 b2 nb h2 a b)
qed

text \<open>
  C8 as it was stated, for every pair that no project row matches, fails for a user id
  that does not fit 64 bits: no row matches it, and the method raises.
\<close>

theorem delete_project_counterexample:
  "has_table example_database ''projects'' [''user_id'', ''project_id'']
   \<and> filter (matches (Some 9223372036854775808) (Some 1)) (tbl_projects example_database) = []
   \<and> delete_project example_database (Some 9223372036854775808) (Some 1) =
       (Inl OverflowError, example_database)"
  by code_simp

subsection \<open>\<^verbatim>\<open>get_project_skills\<close>\<close>

lemma concat_map_Nil: "(\<And>x. x \<in> set xs \<Longrightarrow> f x = []) \<Longrightarrow> concat (map f xs) = []"
  by (induction xs) auto

lemma select_project_skills_empty:
  assumes "\<forall>p\<in>set (tbl_projects db). sql_eq (Some (project_name p)) name \<longrightarrow>
            (\<forall>ps\<in>set (tbl_project_skills db). \<not> sql_eq (Some (project_id p)) (fk_project_id ps))"
  shows "select_project_skills db name = []"
  unfolding select_project_skills_def
proof (rule concat_map_Nil)
  fix ps assume ps: "ps \<in> set (tbl_project_skills db)"
  have "\<forall>p\<in>set (tbl_projects db).
          \<not> (sql_eq (Some (project_id p)) (fk_project_id ps) \<and> sql_eq (Some (project_name p)) name)"
    using assms ps by blast
  then have "filter (\<lambda>p. sql_eq (Some (project_id p)) (fk_project_id ps)
                        \<and> sql_eq (Some (project_name p)) name) (tbl_projects db) = []"
    by (simp only: filter_empty_conv)
  then show "concat (map (\<lambda>p. map skill_name
           (filter (\<lambda>s. sql_eq (Some (skill_id s)) (fk_skill_id ps)) (tbl_skills db)))
         (filter (\<lambda>p. sql_eq (Some (project_id p)) (fk_project_id ps)
                       \<and> sql_eq (Some (project_name p)) name)
            (tbl_projects db))) = []" by simp
qed

text \<open>
  C10. On a database with the three tables of the join, when no project row has the name,
  or no row of \<^verbatim>\<open>project_skills\<close> refers to a project that has it,
  \<^verbatim>\<open>get_project_skills\<close> returns the empty string and raises nothing.
\<close>

theorem get_project_skills_empty:
  assumes "has_table db ''projects'' [''project_id'', ''project_name'']"
    and "has_table db ''project_skills'' [''project_id'', ''skill_id'']"
    and "has_table db ''skills'' [''skill_id'', ''skill_name'']"
    and "(\<forall>p\<in>set (tbl_projects db). \<not> sql_eq (Some (project_name p)) name)
       \<or> (\<forall>p\<in>set (tbl_projects db). sql_eq (Some (project_name p)) name \<longrightarrow>
            (\<forall>ps\<in>set (tbl_project_skills db). \<not> sql_eq (Some (project_id p)) (fk_project_id ps)))"
  shows "get_project_skills db name = (Inr '''', db)"
proof -
  have "select_project_skills db name = []"
    using assms(4) by (intro select_project_skills_empty) blast
  with assms(1-3) show ?thesis by (simp add: get_project_skills_def)
qed

theorem get_project_skills_empty_witness:
  "has_table skilled_database ''projects'' [''project_id'', ''project_name'']
   \<and> has_table skilled_database ''project_skills'' [''project_id'', ''skill_id'']
   \<and> has_table skilled_database ''skills'' [''skill_id'', ''skill_name'']
   \<and> get_project_skills skilled_database (Some ''site'') = (Inr [], skilled_database)
   \<and> get_project_skills skilled_database (Some ''nothing'') = (Inr [], skilled_database)"
proof -
  have h1: "has_table skilled_database ''projects'' [''project_id'', ''project_name'']"
    by code_simp
  have h2: "has_table skilled_database ''project_skills'' [''project_id'', ''skill_id'']"
    by code_simp
  have h3: "has_table skilled_database ''skills'' [''skill_id'', ''skill_name'']"
    by code_simp
  have h4: "(\<forall>p\<in>set (tbl_projects skilled_database). \<not> sql_eq (Some (project_name p)) (Some ''site''))
       \<or> (\<forall>p\<in>set (tbl_projects skilled_database). sql_eq (Some (project_name p)) (Some ''site'') \<longrightarrow>
            (\<forall>ps\<in>set (tbl_project_skills skilled_database).
               \<not> sql_eq (Some (project_id p)) (fk_project_id ps)))"
    by code_simp
  have h5: "(\<forall>p\<in>set (tbl_projects skilled_database). \<not> sql_eq (Some (project_name p)) (Some ''nothing''))
       \<or> (\<forall>p\<in>set (tbl_projects skilled_database). sql_eq (Some (project_name p)) (Some ''nothing'') \<longrightarrow>
            (\<forall>ps\<in>set (tbl_project_skills skilled_database).
               \<not> sql_eq (Some (project_id p)) (fk_project_id ps)))"
    by code_simp
  from get_project_skills_empty [OF h1 h2 h3 h4] get_project_skills_empty [OF h1 h2 h3 h5]
    h1 h2 h3 show ?thesis by simp
qed

lemma sql_eq_iff: "sql_eq a b \<longleftrightarrow> a \<noteq> None \<and> a = b"
  by (cases a; cases b) simp_all

lemma map_filter_Cons:
  assumes "map f (filter P xs) = y # ys"
  shows "\<exists>x\<in>set xs. P x \<and> f x = y"
proof -
  have "y \<in> set (map f (filter P xs))" by (simp only: assms list.set_intros)
  then show ?thesis by auto
qed

text \<open>What a successful \<^verbatim>\<open>insert_skill\<close> has done: one row more in
  \<^verbatim>\<open>project_skills\<close>, whether or not the pair was there, for the first project and the
  first skill that match.\<close>

lemma insert_skill_Inr:
  assumes "insert_skill db uid name skill = (Inr (), db')"
  shows "\<exists>pid pids sid sids.
           select_project_id db name uid = pid # pids \<and> select_skill_id db skill = sid # sids
         \<and> db' = db\<lparr>tbl_project_skills := tbl_project_skills db @
                      [\<lparr>fk_project_id = Some pid, fk_skill_id = Some sid\<rparr>]\<rparr>"
proof (cases "select_project_id db name uid")
  case Nil
  with assms show ?thesis by (simp add: insert_skill_def split: if_splits)
next
  case p: (Cons pid pids)
  show ?thesis
  proof (cases "select_skill_id db skill")
    case Nil
    with p assms show ?thesis by (simp add: insert_skill_def split: if_splits)
  next
    case s: (Cons sid sids)
    with p assms show ?thesis by (simp add: insert_skill_def split: if_splits)
  qed
qed

lemma insert_skill_appends:
  assumes "insert_skill db uid name skill = (Inr (), db')"
  shows "length (tbl_project_skills db') = Suc (length (tbl_project_skills db))"
  using insert_skill_Inr [OF assms] by auto

lemma insert_skill_selected:
  assumes "insert_skill db uid name skill = (Inr (), db')"
  shows "skill \<noteq> None \<and> skill \<in> set (select_project_skills db' name)"
proof -
  from insert_skill_Inr [OF assms] obtain pid pids sid sids where
    p: "select_project_id db name uid = pid # pids" and s: "select_skill_id db skill = sid # sids"
    and db': "db' = db\<lparr>tbl_project_skills := tbl_project_skills db @
                      [\<lparr>fk_project_id = Some pid, fk_skill_id = Some sid\<rparr>]\<rparr>"
    by blast
  from map_filter_Cons [OF p [unfolded select_project_id_def]] obtain pr where
    pr: "pr \<in> set (tbl_projects db)" "name = Some (project_name pr)" "project_id pr = pid"
    by (auto simp: sql_eq_iff)
  from map_filter_Cons [OF s [unfolded select_skill_id_def]] obtain sk where
    sk: "sk \<in> set (tbl_skills db)" "skill_name sk \<noteq> None" "skill_name sk = skill" "skill_id sk = sid"
    by (auto simp: sql_eq_iff)
  let ?row = "\<lparr>fk_project_id = Some pid, fk_skill_id = Some sid\<rparr>"
  have "skill_name sk \<in> set (select_project_skills db' name)"
    unfolding select_project_skills_def set_concat set_map set_filter
    using pr sk by (auto simp: db' intro!: bexI [of _ ?row] bexI [of _ pr] bexI [of _ sk])
  with sk show ?thesis by simp
qed

lemma all_strings_Some: "all_strings xs = Some ys \<Longrightarrow> xs = map Some ys"
proof (induction xs arbitrary: ys)
  case Nil
  then show ?case by simp
next
  case (Cons x xs)
  then show ?case by (cases x) auto
qed

lemma sublist_join: "x \<in> set xs \<Longrightarrow> sublist x (join xs)"
proof (induction xs rule: join.induct)
  case 1
  then show ?case by simp
next
  case (2 y)
  then show ?case by simp
next
  case (3 y z zs)
  show ?case
  proof (cases "x = y")
    case True
    then show ?thesis by (simp add: sublist_def) (metis append_Nil)
  next
    case False
    with 3 have "sublist x (join (z # zs))" by simp
    then obtain ps ss where "join (z # zs) = ps @ x @ ss" by (auto simp: sublist_def)
    then have "join (y # z # zs) = (y @ '', '' @ ps) @ x @ ss" by simp
    then show ?thesis unfolding sublist_def by blast
  qed
qed

text \<open>The first half of C3: after a successful \<^verbatim>\<open>insert_skill\<close>, the names that
  \<^verbatim>\<open>get_project_skills\<close> joins include the skill, and so does the string it returns.\<close>

lemma insert_skill_then_get_project_skills:
  assumes "insert_skill db uid name (Some skill) = (Inr (), db')"
    and "get_project_skills db' name = (Inr str, db'')"
  shows "\<exists>names. str = join names \<and> skill \<in> set names" and "sublist skill str"
proof -
  from assms(2) obtain names where n: "all_strings (select_project_skills db' name) = Some names"
    and str: "str = join names"
    by (auto simp: get_project_skills_def split: if_splits option.splits)
  from all_strings_Some [OF n] insert_skill_selected [OF assms(1)]
  have "skill \<in> set names" by auto
  with str show "\<exists>names. str = join names \<and> skill \<in> set names" by blast
  from \<open>skill \<in> set names\<close> str show "sublist skill str" by (simp add: sublist_join)
qed

text \<open>
  C3. The claim: after \<^verbatim>\<open>insert_skill\<close> the string of \<^verbatim>\<open>get_project_skills\<close>
  includes the skill, and a second \<^verbatim>\<open>insert_skill\<close> with the same arguments leaves
  one row for the pair, not two. On a database where project 1 has the skill 1 once,
  the second call succeeds and leaves the pair twice, and the string names the skill twice.
\<close>

theorem insert_skill_twice_duplicates:
  "tbl_project_skills skilled_database = [\<lparr>fk_project_id = Some 1, fk_skill_id = Some 1\<rparr>]
   \<and> fst (insert_skill skilled_database (Some 7) (Some ''bot'') (Some ''Python'')) = Inr ()
   \<and> tbl_project_skills (snd (insert_skill skilled_database (Some 7) (Some ''bot'') (Some ''Python''))) =
       [\<lparr>fk_project_id = Some 1, fk_skill_id = Some 1\<rparr>,
        \<lparr>fk_project_id = Some 1, fk_skill_id = Some 1\<rparr>]
   \<and> fst (get_project_skills
            (snd (insert_skill skilled_database (Some 7) (Some ''bot'') (Some ''Python'')))
            (Some ''bot'')) = Inr ''Python, Python''"
  by code_simp

end
